theory Spec2Isabelle
  imports Complex_Main "HOL-Library.Log_Nat"
begin

section \<open>AcCoRD: geometry kernel (base.c), reaction compiler (chem\_rxn.c), region loader (file\_io.c)\<close>

text \<open>
  Conventions of the embedding.
  \<^item> In the geometry kernel a C \<open>double\<close> is a real number: rounding, overflow and the
    special values of the machine format are not represented. Where the source divides,
    the model uses a checked division whose error value records that the divisor was zero
    (the C program does not trap there: it goes on with an infinity or a NaN, which the
    reals do not have).
  \<^item> The coordinate mirror of reflectPoint is modelled in binary64 arithmetic, with
    rounding to nearest, because the property stated of it is a bound on rounding error.
  \<^item> In the reaction compiler a rate can be \<open>INFINITY\<close>, so a \<open>double\<close> is a real
    number, an infinity or NaN there, with exact arithmetic on the real numbers.
  \<^item> A C array of doubles (\<open>boundary1[]\<close>, \<open>point[3]\<close>) is a list read with
    \<open>!\<close> and written with list update.
  \<^item> The shape codes are an enumeration. The three orientation codes \<open>PLANE_XY\<close>,
    \<open>PLANE_XZ\<close>, \<open>PLANE_YZ\<close> are numbers, because the source stores them in slot 4 of a
    cylinder's boundary array and compares that slot with the macro.
  \<^item> \<open>exit(EXIT_FAILURE)\<close> is an error value of a sum type.
\<close>

subsection \<open>Shapes and constants\<close>

datatype shape = RECTANGLE | RECTANGULAR_BOX | CIRCLE | SPHERE | CYLINDER | LINE | UNDEFINED_SHAPE

text \<open>
  Modelled from the spec: the macros \<open>PLANE_3D\<close>, \<open>PLANE_XY\<close>, \<open>PLANE_XZ\<close>,
  \<open>PLANE_YZ\<close> and \<open>PI\<close> are defined in a header that is not among the sources. The spec
  speaks of cylinders with one of three orientations and of rectangles in one of the three
  coordinate planes, so the codes are four distinct integers (nothing below depends on
  more than their being distinct), and it writes the circle constant as \<open>\<pi>\<close>.
\<close>

definition PLANE_3D :: int where "PLANE_3D = 0"
definition PLANE_XY :: int where "PLANE_XY = 1"
definition PLANE_XZ :: int where "PLANE_XZ = 2"
definition PLANE_YZ :: int where "PLANE_YZ = 3"

definition PI :: real where "PI = pi"

subsection \<open>Elementary functions of base.c\<close>

definition squareDBL :: "real \<Rightarrow> real" where
  "squareDBL v = v * v"

definition pointDistance :: "real list \<Rightarrow> real list \<Rightarrow> real" where
  "pointDistance point1 point2 =
     sqrt (squareDBL (point2 ! 0 - point1 ! 0) + squareDBL (point2 ! 1 - point1 ! 1)
           + squareDBL (point2 ! 2 - point1 ! 2))"

text \<open>\<open>bPointInBoundary\<close>: a cylinder whose orientation code is none of the three falls
  through to the \<open>default\<close> label and yields false.\<close>

definition bPointInBoundary :: "real list \<Rightarrow> shape \<Rightarrow> real list \<Rightarrow> bool" where
  "bPointInBoundary point boundary1Type boundary1 =
     (case boundary1Type of
        RECTANGLE \<Rightarrow>
          (point ! 0 \<ge> boundary1 ! 0 \<and> point ! 0 \<le> boundary1 ! 1
           \<and> point ! 1 \<ge> boundary1 ! 2 \<and> point ! 1 \<le> boundary1 ! 3
           \<and> point ! 2 \<ge> boundary1 ! 4 \<and> point ! 2 \<le> boundary1 ! 5)
      | RECTANGULAR_BOX \<Rightarrow>
          (point ! 0 \<ge> boundary1 ! 0 \<and> point ! 0 \<le> boundary1 ! 1
           \<and> point ! 1 \<ge> boundary1 ! 2 \<and> point ! 1 \<le> boundary1 ! 3
           \<and> point ! 2 \<ge> boundary1 ! 4 \<and> point ! 2 \<le> boundary1 ! 5)
      | SPHERE \<Rightarrow> pointDistance point boundary1 \<le> boundary1 ! 3
      | CYLINDER \<Rightarrow>
          (if boundary1 ! 4 = real_of_int PLANE_XY then
             (point ! 2 \<ge> boundary1 ! 2 \<and> point ! 2 \<le> boundary1 ! 2 + boundary1 ! 5
              \<and> sqrt (squareDBL (point ! 0 - boundary1 ! 0) + squareDBL (point ! 1 - boundary1 ! 1))
                  \<le> boundary1 ! 3)
           else if boundary1 ! 4 = real_of_int PLANE_XZ then
             (point ! 1 \<ge> boundary1 ! 1 \<and> point ! 1 \<le> boundary1 ! 1 + boundary1 ! 5
              \<and> sqrt (squareDBL (point ! 0 - boundary1 ! 0) + squareDBL (point ! 2 - boundary1 ! 2))
                  \<le> boundary1 ! 3)
           else if boundary1 ! 4 = real_of_int PLANE_YZ then
             (point ! 0 \<ge> boundary1 ! 0 \<and> point ! 0 \<le> boundary1 ! 0 + boundary1 ! 5
              \<and> sqrt (squareDBL (point ! 1 - boundary1 ! 1) + squareDBL (point ! 2 - boundary1 ! 2))
                  \<le> boundary1 ! 3)
           else False)
      | _ \<Rightarrow> False)"

text \<open>\<open>boundaryVolume\<close>. In the \<open>SPHERE\<close> case the source writes
  \<open>4 / 3 * PI * boundary1[3] * boundary1[3] * boundary1[3]\<close>: the product is read from the
  left, and \<open>4 / 3\<close> has two \<open>int\<close> operands, so it is C's integer division. A
  \<open>RECTANGLE\<close> that is flat along no axis falls through to the \<open>RECTANGULAR_BOX\<close> case.\<close>

definition boundaryVolume_box :: "real list \<Rightarrow> real" where
  "boundaryVolume_box boundary1 =
     (if boundary1 ! 1 < boundary1 ! 0 \<or> boundary1 ! 3 < boundary1 ! 2
         \<or> boundary1 ! 5 < boundary1 ! 4 then 0
      else (boundary1 ! 1 - boundary1 ! 0) * (boundary1 ! 3 - boundary1 ! 2)
           * (boundary1 ! 5 - boundary1 ! 4))"

definition boundaryVolume :: "shape \<Rightarrow> real list \<Rightarrow> real" where
  "boundaryVolume boundary1Type boundary1 =
     (case boundary1Type of
        RECTANGLE \<Rightarrow>
          (if boundary1 ! 1 < boundary1 ! 0 \<or> boundary1 ! 3 < boundary1 ! 2
              \<or> boundary1 ! 5 < boundary1 ! 4 then 0
           else if boundary1 ! 0 = boundary1 ! 1 then
             (boundary1 ! 5 - boundary1 ! 4) * (boundary1 ! 3 - boundary1 ! 2)
           else if boundary1 ! 2 = boundary1 ! 3 then
             (boundary1 ! 1 - boundary1 ! 0) * (boundary1 ! 5 - boundary1 ! 4)
           else if boundary1 ! 4 = boundary1 ! 5 then
             (boundary1 ! 1 - boundary1 ! 0) * (boundary1 ! 3 - boundary1 ! 2)
           else boundaryVolume_box boundary1)
      | RECTANGULAR_BOX \<Rightarrow> boundaryVolume_box boundary1
      | CIRCLE \<Rightarrow> PI * squareDBL (boundary1 ! 3)
      | SPHERE \<Rightarrow>
          real_of_int (4 div 3) * PI * (boundary1 ! 3) * (boundary1 ! 3) * (boundary1 ! 3)
      | CYLINDER \<Rightarrow> 2 * PI * (boundary1 ! 3) * (boundary1 ! 3) * (boundary1 ! 5)
      | LINE \<Rightarrow>
          sqrt (squareDBL (boundary1 ! 1 - boundary1 ! 0) + squareDBL (boundary1 ! 3 - boundary1 ! 2)
                + squareDBL (boundary1 ! 5 - boundary1 ! 4))
      | UNDEFINED_SHAPE \<Rightarrow> 0)"

subsection \<open>Cylinder orientation\<close>

text \<open>Every cylinder branch of base.c starts with the same chain
  \<open>if (b[4] == PLANE_XY) {across1 = 0; across2 = 1; along = 2;} else if (b[4] == PLANE_XZ)
  {across1 = 0; along = 1; across2 = 2;} else if (b[4] == PLANE_YZ) {along = 0; across1 = 1;
  across2 = 2;} else {error}\<close>. The result is \<open>(along, across1, across2)\<close>, or \<open>None\<close> in
  the error branch.\<close>

definition orientation :: "real \<Rightarrow> (nat \<times> nat \<times> nat) option" where
  "orientation code =
     (if code = real_of_int PLANE_XY then Some (2, 0, 1)
      else if code = real_of_int PLANE_XZ then Some (1, 0, 2)
      else if code = real_of_int PLANE_YZ then Some (0, 1, 2)
      else None)"

subsection \<open>bBoundarySurround: the two cases that bBoundaryIntersect calls\<close>

text \<open>Is the box \<open>boundary1\<close> inside the sphere \<open>boundary2\<close>? The source tests the eight
  corners one after the other and returns false at the first that is too far out.\<close>

definition bBoundarySurround_box_sphere :: "real list \<Rightarrow> real list \<Rightarrow> real \<Rightarrow> bool" where
  "bBoundarySurround_box_sphere boundary1 boundary2 clearance =
     (if boundary2 ! 3 < pointDistance [boundary1 ! 0, boundary1 ! 2, boundary1 ! 4] boundary2 + clearance
        then False
      else if boundary2 ! 3 < pointDistance [boundary1 ! 0, boundary1 ! 2, boundary1 ! 5] boundary2 + clearance
        then False
      else if boundary2 ! 3 < pointDistance [boundary1 ! 0, boundary1 ! 3, boundary1 ! 4] boundary2 + clearance
        then False
      else if boundary2 ! 3 < pointDistance [boundary1 ! 0, boundary1 ! 3, boundary1 ! 5] boundary2 + clearance
        then False
      else if boundary2 ! 3 < pointDistance [boundary1 ! 1, boundary1 ! 2, boundary1 ! 4] boundary2 + clearance
        then False
      else if boundary2 ! 3 < pointDistance [boundary1 ! 1, boundary1 ! 2, boundary1 ! 5] boundary2 + clearance
        then False
      else if boundary2 ! 3 < pointDistance [boundary1 ! 1, boundary1 ! 3, boundary1 ! 4] boundary2 + clearance
        then False
      else if boundary2 ! 3 < pointDistance [boundary1 ! 1, boundary1 ! 3, boundary1 ! 5] boundary2 + clearance
        then False
      else True)"

text \<open>Is the sphere \<open>boundary1\<close> inside the box \<open>boundary2\<close>?\<close>

definition bBoundarySurround_sphere_box :: "real list \<Rightarrow> real list \<Rightarrow> real \<Rightarrow> bool" where
  "bBoundarySurround_sphere_box boundary1 boundary2 clearance =
     (boundary1 ! 3 \<le> boundary1 ! 0 - boundary2 ! 0 - clearance
      \<and> boundary1 ! 3 \<le> boundary2 ! 1 - boundary1 ! 0 - clearance
      \<and> boundary1 ! 3 \<le> boundary1 ! 1 - boundary2 ! 2 - clearance
      \<and> boundary1 ! 3 \<le> boundary2 ! 3 - boundary1 ! 1 - clearance
      \<and> boundary1 ! 3 \<le> boundary1 ! 2 - boundary2 ! 4 - clearance
      \<and> boundary1 ! 3 \<le> boundary2 ! 5 - boundary1 ! 2 - clearance)"

subsection \<open>bBoundaryIntersect\<close>

text \<open>The squared distance from the centre of a sphere to a box, as the sphere/box cases
  accumulate it in \<open>d\<close> (the source writes some of the differences in the other order;
  the square is the same).\<close>

definition sphereBoxDistSq :: "real list \<Rightarrow> real list \<Rightarrow> real" where
  "sphereBoxDistSq sph box =
     (let d0 = (if sph ! 0 < box ! 0 then squareDBL (sph ! 0 - box ! 0)
                else if sph ! 0 > box ! 1 then squareDBL (sph ! 0 - box ! 1) else 0);
          d1 = (if sph ! 1 < box ! 2 then d0 + squareDBL (sph ! 1 - box ! 2)
                else if sph ! 1 > box ! 3 then d0 + squareDBL (sph ! 1 - box ! 3) else d0);
          d2 = (if sph ! 2 < box ! 4 then d1 + squareDBL (sph ! 2 - box ! 4)
                else if sph ! 2 > box ! 5 then d1 + squareDBL (sph ! 2 - box ! 5) else d1)
      in d2)"

text \<open>The cylinder/box case. The source has it twice, once with the box as \<open>boundary1\<close>
  (lines 137 to 204) and once with the cylinder as \<open>boundary1\<close> (lines 246 to 315); the two
  texts differ only in the exchange of \<open>boundary1\<close> and \<open>boundary2\<close>. The four square-root
  disjuncts of \<open>areacheck\<close> are written out as the source has them.\<close>

definition intersectCylinderBox :: "real list \<Rightarrow> real list \<Rightarrow> real \<Rightarrow> bool" where
  "intersectCylinderBox cyl box clearance =
     (case orientation (cyl ! 4) of
        None \<Rightarrow> False
      | Some (along, across1, across2) \<Rightarrow>
          (let lengthcheck =
                 (box ! (2 * along) \<le> cyl ! along + cyl ! 5 - clearance
                  \<and> box ! (2 * along + 1) \<ge> cyl ! along + clearance);
               areacheck =
                 (sqrt (squareDBL (box ! (2 * across1) - cyl ! across1)
                        + squareDBL (box ! (2 * across2) - cyl ! across2)) \<le> cyl ! 3 - clearance
                  \<or> sqrt (squareDBL (box ! (2 * across1) - cyl ! across1)
                        + squareDBL (box ! (2 * across2) - cyl ! across2)) \<le> cyl ! 3 - clearance
                  \<or> sqrt (squareDBL (box ! (2 * across1) - cyl ! across1)
                        + squareDBL (box ! (2 * across2) - cyl ! across2)) \<le> cyl ! 3 - clearance
                  \<or> sqrt (squareDBL (box ! (2 * across1) - cyl ! across1)
                        + squareDBL (box ! (2 * across2) - cyl ! across2)) \<le> cyl ! 3 - clearance
                  \<or> (cyl ! across1 \<ge> box ! (across1 * 2)
                      \<and> cyl ! across1 \<le> box ! (across1 * 2 + 1)
                      \<and> cyl ! across2 \<ge> box ! (across2 * 2)
                      \<and> cyl ! across2 \<le> box ! (across2 * 2 + 1)))
           in lengthcheck \<and> areacheck))"

definition bBoundaryIntersect :: "shape \<Rightarrow> real list \<Rightarrow> shape \<Rightarrow> real list \<Rightarrow> real \<Rightarrow> bool" where
  "bBoundaryIntersect boundary1Type boundary1 boundary2Type boundary2 clearance =
     (if boundary1Type = RECTANGLE \<or> boundary1Type = RECTANGULAR_BOX then
        (case boundary2Type of
           RECTANGULAR_BOX \<Rightarrow>
             (boundary1 ! 2 < boundary2 ! 3 \<and> boundary1 ! 3 > boundary2 ! 2
              \<and> boundary1 ! 0 < boundary2 ! 1 \<and> boundary1 ! 1 > boundary2 ! 0
              \<and> boundary1 ! 4 < boundary2 ! 5 \<and> boundary1 ! 5 > boundary2 ! 4)
         | SPHERE \<Rightarrow>
             (sphereBoxDistSq boundary2 boundary1 < squareDBL (boundary2 ! 3 + clearance)
              \<and> \<not> bBoundarySurround_box_sphere boundary1 boundary2 0
              \<and> \<not> bBoundarySurround_sphere_box boundary2 boundary1 0)
         | CYLINDER \<Rightarrow> intersectCylinderBox boundary2 boundary1 clearance
         | _ \<Rightarrow> False)
      else if boundary1Type = SPHERE then
        (case boundary2Type of
           SPHERE \<Rightarrow>
             (let d = pointDistance boundary1 boundary2
              in d < boundary1 ! 3 + boundary2 ! 3 + clearance
                 \<and> d > \<bar>boundary1 ! 3 - boundary2 ! 3\<bar>)
         | RECTANGLE \<Rightarrow>
             (sphereBoxDistSq boundary1 boundary2 < squareDBL (boundary1 ! 3 + clearance)
              \<and> \<not> bBoundarySurround_box_sphere boundary2 boundary1 0
              \<and> \<not> bBoundarySurround_sphere_box boundary1 boundary2 0)
         | RECTANGULAR_BOX \<Rightarrow>
             (sphereBoxDistSq boundary1 boundary2 < squareDBL (boundary1 ! 3 + clearance)
              \<and> \<not> bBoundarySurround_box_sphere boundary2 boundary1 0
              \<and> \<not> bBoundarySurround_sphere_box boundary1 boundary2 0)
         | _ \<Rightarrow> False)
      else if boundary1Type = CYLINDER then
        (case boundary2Type of
           RECTANGULAR_BOX \<Rightarrow> intersectCylinderBox boundary1 boundary2 clearance
         | _ \<Rightarrow> False)
      else False)"

text \<open>The cross-section test as the specification words it, for comparison: each of the
  four corners of the rectangle against the circle shrunk by the clearance, or the centre
  of the circle inside the rectangle; and the axial extents overlapping by more than the
  clearance.\<close>

definition crossSectionOverlap_spec :: "real list \<Rightarrow> real list \<Rightarrow> real \<Rightarrow> nat \<Rightarrow> nat \<Rightarrow> bool" where
  "crossSectionOverlap_spec cyl box clearance across1 across2 =
     (let corner = (\<lambda>x y. sqrt ((x - cyl ! across1) * (x - cyl ! across1)
                               + (y - cyl ! across2) * (y - cyl ! across2)) \<le> cyl ! 3 - clearance)
      in corner (box ! (2 * across1)) (box ! (2 * across2))
         \<or> corner (box ! (2 * across1 + 1)) (box ! (2 * across2))
         \<or> corner (box ! (2 * across1)) (box ! (2 * across2 + 1))
         \<or> corner (box ! (2 * across1 + 1)) (box ! (2 * across2 + 1))
         \<or> (box ! (2 * across1) \<le> cyl ! across1 \<and> cyl ! across1 \<le> box ! (2 * across1 + 1)
             \<and> box ! (2 * across2) \<le> cyl ! across2 \<and> cyl ! across2 \<le> box ! (2 * across2 + 1)))"

definition intersectCylinderBox_spec :: "real list \<Rightarrow> real list \<Rightarrow> real \<Rightarrow> bool" where
  "intersectCylinderBox_spec cyl box clearance =
     (case orientation (cyl ! 4) of
        None \<Rightarrow> False
      | Some (along, across1, across2) \<Rightarrow>
          (min (box ! (2 * along + 1)) (cyl ! along + cyl ! 5) - max (box ! (2 * along)) (cyl ! along)
             > clearance
           \<and> crossSectionOverlap_spec cyl box clearance across1 across2))"

subsection \<open>bPointOnFace\<close>

text \<open>The inner \<open>switch\<close> statements of the \<open>RECTANGLE\<close> and \<open>RECTANGULAR_BOX\<close> cases
  have no \<open>default\<close> and are not followed by a \<open>return\<close>: a rectangle with a plane id that
  is none of the three plane codes falls through to the box case, and a box with a plane id
  outside 0..5 falls through to the sphere case, which returns true. In the \<open>CYLINDER\<close>
  case the radial comparisons read \<open>boundary1[5]\<close>, and the last conjunct of the mantle tests
  for \<open>PLANE_XZ\<close> and \<open>PLANE_YZ\<close> reads \<open>p1[2]\<close>, as in the source.\<close>

definition bPointOnFace_box :: "real list \<Rightarrow> real list \<Rightarrow> int \<Rightarrow> bool" where
  "bPointOnFace_box p1 boundary1 planeID =
     (if planeID = 0 \<or> planeID = 1 then
        (p1 ! 1 \<ge> boundary1 ! 2 \<and> p1 ! 1 \<le> boundary1 ! 3
         \<and> p1 ! 2 \<ge> boundary1 ! 4 \<and> p1 ! 2 \<le> boundary1 ! 5)
      else if planeID = 2 \<or> planeID = 3 then
        (p1 ! 0 \<ge> boundary1 ! 0 \<and> p1 ! 0 \<le> boundary1 ! 1
         \<and> p1 ! 2 \<ge> boundary1 ! 4 \<and> p1 ! 2 \<le> boundary1 ! 5)
      else if planeID = 4 \<or> planeID = 5 then
        (p1 ! 1 \<ge> boundary1 ! 2 \<and> p1 ! 1 \<le> boundary1 ! 3
         \<and> p1 ! 0 \<ge> boundary1 ! 0 \<and> p1 ! 0 \<le> boundary1 ! 1)
      else True)"

definition bPointOnFace :: "real list \<Rightarrow> shape \<Rightarrow> real list \<Rightarrow> int \<Rightarrow> bool" where
  "bPointOnFace p1 boundary1Type boundary1 planeID =
     (case boundary1Type of
        RECTANGLE \<Rightarrow>
          (if planeID = PLANE_XY then
             (p1 ! 1 \<ge> boundary1 ! 2 \<and> p1 ! 1 \<le> boundary1 ! 3
              \<and> p1 ! 0 \<ge> boundary1 ! 0 \<and> p1 ! 0 \<le> boundary1 ! 1)
           else if planeID = PLANE_XZ then
             (p1 ! 0 \<ge> boundary1 ! 0 \<and> p1 ! 0 \<le> boundary1 ! 1
              \<and> p1 ! 2 \<ge> boundary1 ! 4 \<and> p1 ! 2 \<le> boundary1 ! 5)
           else if planeID = PLANE_YZ then
             (p1 ! 1 \<ge> boundary1 ! 2 \<and> p1 ! 1 \<le> boundary1 ! 3
              \<and> p1 ! 2 \<ge> boundary1 ! 4 \<and> p1 ! 2 \<le> boundary1 ! 5)
           else bPointOnFace_box p1 boundary1 planeID)
      | RECTANGULAR_BOX \<Rightarrow> bPointOnFace_box p1 boundary1 planeID
      | SPHERE \<Rightarrow> True
      | CYLINDER \<Rightarrow>
          (if boundary1 ! 4 = real_of_int PLANE_XY then
             (if planeID = 4 \<or> planeID = 5 then
                (sqrt (squareDBL (p1 ! 0 - boundary1 ! 0) + squareDBL (p1 ! 1 - boundary1 ! 1))
                   \<le> boundary1 ! 5
                 \<and> (p1 ! 2 = boundary1 ! 2 \<or> p1 ! 2 = boundary1 ! 2 + boundary1 ! 5))
              else
                (sqrt (squareDBL (p1 ! 0 - boundary1 ! 0) + squareDBL (p1 ! 1 - boundary1 ! 1))
                   = boundary1 ! 5
                 \<and> (boundary1 ! 2 \<le> p1 ! 2 \<and> p1 ! 2 \<le> boundary1 ! 2 + boundary1 ! 5)))
           else if boundary1 ! 4 = real_of_int PLANE_XZ then
             (if planeID = 2 \<or> planeID = 3 then
                (sqrt (squareDBL (p1 ! 0 - boundary1 ! 0) + squareDBL (p1 ! 2 - boundary1 ! 2))
                   \<le> boundary1 ! 5
                 \<and> (p1 ! 1 = boundary1 ! 1 \<or> p1 ! 1 = boundary1 ! 1 + boundary1 ! 5))
              else
                (sqrt (squareDBL (p1 ! 0 - boundary1 ! 0) + squareDBL (p1 ! 2 - boundary1 ! 2))
                   = boundary1 ! 5
                 \<and> (boundary1 ! 1 \<le> p1 ! 1 \<and> p1 ! 2 \<le> boundary1 ! 1 + boundary1 ! 5)))
           else if boundary1 ! 4 = real_of_int PLANE_YZ then
             (if planeID = 0 \<or> planeID = 1 then
                (sqrt (squareDBL (p1 ! 1 - boundary1 ! 1) + squareDBL (p1 ! 2 - boundary1 ! 2))
                   \<le> boundary1 ! 5
                 \<and> (p1 ! 0 = boundary1 ! 0 \<or> p1 ! 0 = boundary1 ! 0 + boundary1 ! 5))
              else
                (sqrt (squareDBL (p1 ! 1 - boundary1 ! 1) + squareDBL (p1 ! 2 - boundary1 ! 2))
                   = boundary1 ! 5
                 \<and> (boundary1 ! 0 \<le> p1 ! 0 \<and> p1 ! 2 \<le> boundary1 ! 0 + boundary1 ! 5)))
           else False)
      | _ \<Rightarrow> False)"

subsection \<open>Arithmetic that can leave the reals\<close>

text \<open>A division whose divisor is zero and a square root of a negative number have no
  real value. The C program does not stop there (the result is an infinity or a NaN and the
  later comparisons decide); the model stops and reports which of the two was executed, so
  \<open>Inl DivisionByZero\<close> reads: this call executed a division by zero.\<close>

datatype fault = DivisionByZero | SqrtOfNegative

definition bindF :: "fault + 'a \<Rightarrow> ('a \<Rightarrow> fault + 'b) \<Rightarrow> fault + 'b" where
  "bindF m f = (case m of Inl e \<Rightarrow> Inl e | Inr x \<Rightarrow> f x)"

definition fdiv :: "real \<Rightarrow> real \<Rightarrow> fault + real" where
  "fdiv a b = (if b = 0 then Inl DivisionByZero else Inr (a / b))"

definition fsqrt :: "real \<Rightarrow> fault + real" where
  "fsqrt x = (if x < 0 then Inl SqrtOfNegative else Inr (sqrt x))"

text \<open>A distance bound that can be the macro \<open>INFINITY\<close>: the \<open>length\<close> argument of the
  line tests (reflectPoint passes \<open>INFINITY\<close>).\<close>

datatype bound = Finite real | INFINITY

fun le_bound :: "real \<Rightarrow> bound \<Rightarrow> bool" where
  "le_bound x INFINITY = True"
| "le_bound x (Finite y) = (x \<le> y)"

subsection \<open>defineLine\<close>

text \<open>The outputs \<open>L\<close> and \<open>*length\<close> are returned as a pair.\<close>

definition defineLine :: "real list \<Rightarrow> real list \<Rightarrow> fault + (real list \<times> real)" where
  "defineLine p1 p2 =
     (let len = sqrt (squareDBL (p2 ! 0 - p1 ! 0) + squareDBL (p2 ! 1 - p1 ! 1)
                      + squareDBL (p2 ! 2 - p1 ! 2))
      in if len > 0 then
           bindF (fdiv (p2 ! 0 - p1 ! 0) len) (\<lambda>l0.
           bindF (fdiv (p2 ! 1 - p1 ! 1) len) (\<lambda>l1.
           bindF (fdiv (p2 ! 2 - p1 ! 2) len) (\<lambda>l2.
             Inr ([l0, l1, l2], len))))
         else Inr ([0, 0, 0], 0))"

subsection \<open>bLineHitInfinitePlane\<close>

text \<open>The point at distance \<open>d\<close> from \<open>p1\<close> along \<open>L\<close>, which the source writes into
  \<open>intersectPoint\<close> after each distance computation.\<close>

definition linePoint :: "real list \<Rightarrow> real list \<Rightarrow> real \<Rightarrow> real list" where
  "linePoint p1 L d = [p1 ! 0 + L ! 0 * d, p1 ! 1 + L ! 1 * d, p1 ! 2 + L ! 2 * d]"

text \<open>The outputs \<open>*d\<close> and \<open>intersectPoint\<close> are returned with the result; their values on
  entry are arguments, because a plane id that matches no \<open>case\<close> leaves \<open>*d\<close> as it was and
  the \<open>default\<close> shape leaves \<open>intersectPoint\<close> as it was. No statement of the function
  reads \<open>L\<close> before dividing by one of its components.\<close>

definition bLineHitInfinitePlane ::
  "real list \<Rightarrow> real list \<Rightarrow> bound \<Rightarrow> shape \<Rightarrow> real list \<Rightarrow> int \<Rightarrow> bool \<Rightarrow> real \<Rightarrow> real list
   \<Rightarrow> fault + (bool \<times> real \<times> real list)" where
  "bLineHitInfinitePlane p1 L len boundary1Type boundary1 planeID bInside d intersectPoint =
     (case boundary1Type of
        RECTANGLE \<Rightarrow>
          bindF (if planeID = PLANE_XY then fdiv (boundary1 ! 4 - p1 ! 2) (L ! 2)
                 else if planeID = PLANE_XZ then fdiv (boundary1 ! 2 - p1 ! 1) (L ! 1)
                 else if planeID = PLANE_YZ then fdiv (boundary1 ! 0 - p1 ! 0) (L ! 0)
                 else Inr d)
            (\<lambda>d'. Inr (d' > 0 \<and> le_bound d' len, d', linePoint p1 L d'))
      | RECTANGULAR_BOX \<Rightarrow>
          bindF (if planeID = 0 then fdiv (boundary1 ! 0 - p1 ! 0) (L ! 0)
                 else if planeID = 1 then fdiv (boundary1 ! 1 - p1 ! 0) (L ! 0)
                 else if planeID = 2 then fdiv (boundary1 ! 2 - p1 ! 1) (L ! 1)
                 else if planeID = 3 then fdiv (boundary1 ! 3 - p1 ! 1) (L ! 1)
                 else if planeID = 4 then fdiv (boundary1 ! 4 - p1 ! 2) (L ! 2)
                 else if planeID = 5 then fdiv (boundary1 ! 5 - p1 ! 2) (L ! 2)
                 else Inr d)
            (\<lambda>d'. Inr (d' > 0 \<and> le_bound d' len, d', linePoint p1 L d'))
      | SPHERE \<Rightarrow>
          (let c0 = p1 ! 0 - boundary1 ! 0;
               c1 = p1 ! 1 - boundary1 ! 1;
               c2 = p1 ! 2 - boundary1 ! 2;
               LDotCenterToP1 = L ! 0 * c0 + L ! 1 * c1 + L ! 2 * c2
           in bindF (fsqrt (squareDBL LDotCenterToP1 + squareDBL (boundary1 ! 3)
                            - squareDBL c0 - squareDBL c1 - squareDBL c2))
                (\<lambda>r. let d' = (if bInside then - LDotCenterToP1 + r else - LDotCenterToP1 - r)
                      in Inr (d' > 0 \<and> le_bound d' len, d', linePoint p1 L d')))
      | _ \<Rightarrow> Inr (False, 0, intersectPoint))"

subsection \<open>bLineHitBoundary: the distance to a face of a cylinder\<close>

text \<open>The distance computed by one iteration of the cylinder loop (lines 911 to 930):
  the two caps divide by \<open>L[along]\<close>, the mantle takes a square root, and a mantle face of
  a cylinder of length zero is skipped (\<open>continue\<close>, here \<open>None\<close>).\<close>

definition cylinderPlaneDistance ::
  "real list \<Rightarrow> real list \<Rightarrow> real list \<Rightarrow> bool \<Rightarrow> nat \<Rightarrow> nat \<Rightarrow> nat \<Rightarrow> int \<Rightarrow> fault + real option" where
  "cylinderPlaneDistance p1 L boundary1 bInside along across1 across2 curPlane =
     (if curPlane = int (along * 2) then
        bindF (fdiv (boundary1 ! along - p1 ! along) (L ! along)) (\<lambda>d'. Inr (Some d'))
      else if curPlane = int (along * 2 + 1) then
        bindF (fdiv (boundary1 ! along + boundary1 ! 5 - p1 ! along) (L ! along)) (\<lambda>d'. Inr (Some d'))
      else if boundary1 ! 5 > 0 then
        (let c1 = p1 ! across1 - boundary1 ! across1;
             c2 = p1 ! across2 - boundary1 ! across2;
             LDotCenterToP1 = L ! across1 * c1 + L ! across2 * c2
         in bindF (fsqrt (squareDBL LDotCenterToP1 + squareDBL (boundary1 ! 3)
                          - squareDBL c1 - squareDBL c2))
              (\<lambda>r. Inr (Some (if bInside then - LDotCenterToP1 + r else - LDotCenterToP1 - r))))
      else Inr None)"

subsection \<open>Binary64 addition and subtraction\<close>

text \<open>A finite double is \<open>B m e\<close>, the number \<open>m * 2^e\<close>; every finite double has such a
  form with \<open>\<bar>m\<bar> < 2^53\<close> and \<open>e \<ge> -1074\<close>, and its magnitude is below \<open>2^1024\<close>. The exact
  sum of two doubles is rounded to 53 significant bits, to nearest with ties to the even
  mantissa; below \<open>2^-1022\<close> the exponent stays at \<open>-1074\<close> (gradual underflow), and a rounded
  magnitude of \<open>2^1024\<close> or more is an infinity (\<open>BInf True\<close> is the negative one). The sign
  of a zero is not represented: it has no effect on sums and differences.\<close>

datatype b64 = B int int | BInf bool | BNaN

definition roundHalfEven :: "int \<Rightarrow> nat \<Rightarrow> int" where
  "roundHalfEven M k =
     (let q = M div 2 ^ k; r = M mod 2 ^ k
      in if 2 * r < 2 ^ k then q
         else if 2 * r > 2 ^ k then q + 1
         else if even q then q else q + 1)"

definition finite64 :: "int \<Rightarrow> int \<Rightarrow> b64" where
  "finite64 m e = (if \<bar>m\<bar> * 2 ^ nat (e + 1074) \<ge> 2 ^ 2098 then BInf (m < 0) else B m e)"

definition round64 :: "int \<Rightarrow> int \<Rightarrow> b64" where
  "round64 M E =
     (if bitlen \<bar>M\<bar> \<le> 53 \<and> - 1074 \<le> E then finite64 M E
      else (let e = max (bitlen \<bar>M\<bar> + E - 53) (- 1074)
            in finite64 (roundHalfEven M (nat (e - E))) e))"

fun fneg :: "b64 \<Rightarrow> b64" where
  "fneg (B m e) = B (- m) e"
| "fneg (BInf s) = BInf (\<not> s)"
| "fneg BNaN = BNaN"

fun fadd :: "b64 \<Rightarrow> b64 \<Rightarrow> b64" where
  "fadd (B m1 e1) (B m2 e2) =
     (let E = min e1 e2 in round64 (m1 * 2 ^ nat (e1 - E) + m2 * 2 ^ nat (e2 - E)) E)"
| "fadd BNaN y = BNaN"
| "fadd x BNaN = BNaN"
| "fadd (BInf s) (BInf t) = (if s = t then BInf s else BNaN)"
| "fadd (BInf s) (B m e) = BInf s"
| "fadd (B m e) (BInf t) = BInf t"

definition fsub :: "b64 \<Rightarrow> b64 \<Rightarrow> b64" where
  "fsub x y = fadd x (fneg y)"

text \<open>The real number that a finite double stands for (0 for the others, which no
  statement below evaluates), the doubles that are finite, and the finite doubles in the
  form with \<open>\<bar>m\<bar> < 2^53\<close>.\<close>

fun val64 :: "b64 \<Rightarrow> real" where
  "val64 (B m e) = real_of_int m * 2 powr real_of_int e"
| "val64 (BInf s) = 0"
| "val64 BNaN = 0"

fun isFinite64 :: "b64 \<Rightarrow> bool" where
  "isFinite64 (B m e) = True"
| "isFinite64 (BInf s) = False"
| "isFinite64 BNaN = False"

fun isFiniteDouble :: "b64 \<Rightarrow> bool" where
  "isFiniteDouble (B m e) =
     (\<bar>m\<bar> < 2 ^ 53 \<and> - 1074 \<le> e \<and> \<bar>m\<bar> * 2 ^ nat (e + 1074) < 2 ^ 2098)"
| "isFiniteDouble (BInf s) = False"
| "isFiniteDouble BNaN = False"

subsection \<open>reflectPoint: the coordinate mirror for a box\<close>

text \<open>The \<open>RECTANGULAR_BOX\<close> case of the \<open>switch\<close> of reflectPoint (lines 1465 to 1496):
  the statement \<open>newPoint[a] = boundary1[f] + boundary1[f] - curPoint[a]\<close> for the face
  \<open>f = planeID\<close> and its axis \<open>a\<close>, with the function's result. The sum is taken first and
  each operation rounds.\<close>

definition reflectBoxFace :: "b64 list \<Rightarrow> int \<Rightarrow> b64 list \<Rightarrow> b64 list \<Rightarrow> bool \<times> b64 list" where
  "reflectBoxFace boundary1 planeID curPoint newPoint =
     (if planeID = 0
        then (True, newPoint[0 := fsub (fadd (boundary1 ! 0) (boundary1 ! 0)) (curPoint ! 0)])
      else if planeID = 1
        then (True, newPoint[0 := fsub (fadd (boundary1 ! 1) (boundary1 ! 1)) (curPoint ! 0)])
      else if planeID = 2
        then (True, newPoint[1 := fsub (fadd (boundary1 ! 2) (boundary1 ! 2)) (curPoint ! 1)])
      else if planeID = 3
        then (True, newPoint[1 := fsub (fadd (boundary1 ! 3) (boundary1 ! 3)) (curPoint ! 1)])
      else if planeID = 4
        then (True, newPoint[2 := fsub (fadd (boundary1 ! 4) (boundary1 ! 4)) (curPoint ! 2)])
      else if planeID = 5
        then (True, newPoint[2 := fsub (fadd (boundary1 ! 5) (boundary1 ! 5)) (curPoint ! 2)])
      else (False, newPoint))"

text \<open>What reflectPoint computes for a box once the line test has reported the face
  \<open>planeID\<close>: \<open>newPoint\<close> starts as a copy of \<open>curPoint\<close> (lines 1442 to 1444) and the
  \<open>switch\<close> mirrors one coordinate.\<close>

definition reflectBoxMirror :: "b64 list \<Rightarrow> int \<Rightarrow> b64 list \<Rightarrow> bool \<times> b64 list" where
  "reflectBoxMirror boundary1 planeID curPoint =
     reflectBoxFace boundary1 planeID curPoint [curPoint ! 0, curPoint ! 1, curPoint ! 2]"

subsection \<open>Doubles with infinities, for the reaction rates of chem\_rxn.c\<close>

text \<open>A reaction rate can be the value \<open>INFINITY\<close>, which initializeRegionChemRxn tests
  for. The rates are therefore modelled with the special values of the machine format added
  to the reals: the finite values are real numbers with exact arithmetic (no rounding, no
  overflow), and the operations on infinities and NaN follow the C arithmetic. There is one
  zero, taken as positive where its sign would decide the sign of an infinite quotient.\<close>

datatype dbl = Fin real | PInf | NInf | NaN

fun dneg :: "dbl \<Rightarrow> dbl" where
  "dneg (Fin a) = Fin (- a)"
| "dneg PInf = NInf"
| "dneg NInf = PInf"
| "dneg NaN = NaN"

fun dsign :: "dbl \<Rightarrow> real" where
  "dsign (Fin a) = sgn a"
| "dsign PInf = 1"
| "dsign NInf = - 1"
| "dsign NaN = 0"

definition infBySign :: "real \<Rightarrow> dbl" where
  "infBySign s = (if s = 0 then NaN else if s > 0 then PInf else NInf)"

fun dadd :: "dbl \<Rightarrow> dbl \<Rightarrow> dbl" where
  "dadd (Fin a) (Fin b) = Fin (a + b)"
| "dadd NaN y = NaN"
| "dadd x NaN = NaN"
| "dadd PInf NInf = NaN"
| "dadd NInf PInf = NaN"
| "dadd PInf y = PInf"
| "dadd NInf y = NInf"
| "dadd (Fin a) y = y"

definition dsub :: "dbl \<Rightarrow> dbl \<Rightarrow> dbl" where
  "dsub x y = dadd x (dneg y)"

fun dmul :: "dbl \<Rightarrow> dbl \<Rightarrow> dbl" where
  "dmul (Fin a) (Fin b) = Fin (a * b)"
| "dmul NaN y = NaN"
| "dmul x NaN = NaN"
| "dmul x y = infBySign (dsign x * dsign y)"

fun ddiv :: "dbl \<Rightarrow> dbl \<Rightarrow> dbl" where
  "ddiv (Fin a) (Fin b) = (if b \<noteq> 0 then Fin (a / b) else infBySign (sgn a))"
| "ddiv NaN y = NaN"
| "ddiv x NaN = NaN"
| "ddiv (Fin a) y = Fin 0"
| "ddiv x (Fin b) = (if b \<ge> 0 then x else dneg x)"
| "ddiv x y = NaN"

fun dexp :: "dbl \<Rightarrow> dbl" where
  "dexp (Fin a) = Fin (exp a)"
| "dexp PInf = PInf"
| "dexp NInf = Fin 0"
| "dexp NaN = NaN"

fun dsqrt :: "dbl \<Rightarrow> dbl" where
  "dsqrt (Fin a) = (if a < 0 then NaN else Fin (sqrt a))"
| "dsqrt PInf = PInf"
| "dsqrt NInf = NaN"
| "dsqrt NaN = NaN"

text \<open>The comparison \<open>x == INFINITY\<close>.\<close>

definition isINFINITY :: "dbl \<Rightarrow> bool" where
  "isINFINITY x = (x = PInf)"

subsection \<open>initializeRegionChemRxn (chem\_rxn.c)\<close>

datatype region_type = REGION_NORMAL | REGION_SURFACE_3D | REGION_SURFACE_2D

datatype surface_type = NO_SURFACE | SURFACE_INNER | SURFACE_OUTER | SURFACE_MEMBRANE

text \<open>The codes of \<open>surfRxnType\<close>; \<open>RXN_OTHER\<close> stands for any value that is none of the
  four macros (the \<open>default\<close> labels of the source).\<close>

datatype rxn_type = RXN_NORMAL | RXN_ABSORBING | RXN_RECEPTOR | RXN_MEMBRANE | RXN_OTHER

text \<open>The fields of \<open>struct chem_rxn_struct\<close> that the function reads. \<open>rate_k\<close> is the
  field \<open>k\<close>; \<open>regionExceptionLabel\<close> holds the \<open>numRegionExceptions\<close> labels, \<open>None\<close>
  for a null pointer.\<close>

record chem_rxn_struct =
  reactants :: "nat list"
  products :: "nat list"
  rate_k :: dbl
  bSurface :: bool
  surfRxnType :: rxn_type
  bEverywhere :: bool
  regionExceptionLabel :: "string option list"

text \<open>The fields of \<open>struct region\<close> that the function reads: \<open>spec.label\<close>,
  \<open>spec.type\<close>, \<open>spec.surfaceType\<close>, \<open>spec.dt\<close>, \<open>plane\<close>, \<open>actualSubSize\<close> and
  \<open>volume\<close>.\<close>

record region_spec =
  spec_label :: "string option"
  spec_type :: region_type
  spec_surfaceType :: surface_type
  spec_dt :: dbl
  plane :: int
  actualSubSize :: dbl
  volume :: dbl

text \<open>The fields of \<open>struct region\<close> that the function writes and that decide its control
  flow or hold the first-order tables. \<open>numChemRxn\<close> is the length of \<open>rxnInRegionID\<close>, and
  \<open>numFirstCurReactant[j]\<close> is the length of \<open>firstRxnID[j]\<close>. The arrays \<open>uniCumProb[j]\<close>
  and \<open>uniRelativeRate[j]\<close> come from \<open>malloc\<close>: a slot holds a value only once it has
  been written, so they are partial maps from the index. The fields that only record the
  reactants and products of each reaction (\<open>numMolChange\<close>, \<open>bMolAdd\<close>, \<open>productID\<close>,
  \<open>bUpdateProp\<close>, \<open>uniReactant\<close>, \<open>biReactants\<close>) and the index lists by order
  (\<open>zerothRxn\<close>, \<open>firstRxn\<close>, \<open>secondRxn\<close>, \<open>rxnRateZerothMicro\<close>) are not modelled;
  nothing modelled reads them. Allocation is taken to succeed.\<close>

record region_rxn =
  rxnInRegionID :: "nat list"
  rxnOrder :: "nat list"
  rxnRate :: "dbl list"
  firstRxnID :: "nat list list"
  uniSumRate :: "dbl list"
  uniCumProb :: "(nat \<rightharpoonup> dbl) list"
  uniRelativeRate :: "(nat \<rightharpoonup> dbl) list"
  minRxnTimeRV :: "dbl list"

text \<open>The calls of \<open>exit(EXIT_FAILURE)\<close>, by their messages, and the two reads to which C
  gives no value: of an array slot that was never written, and of \<open>DIFF_COEF[i]\<close> past
  the end of the row.\<close>

datatype rxn_error =
    MembraneRxnInOtherRegion
  | OtherRxnInMembraneRegion
  | ZerothOrderNotNormal
  | InvalidFirstOrderType
  | SecondOrderNotNormal
  | TooManyReactants
  | ExclusiveRxnNotAlone
  | UninitialisedRead
  | DiffCoefReadOutsideRow

definition bindE :: "rxn_error + 'a \<Rightarrow> ('a \<Rightarrow> rxn_error + 'b) \<Rightarrow> rxn_error + 'b" where
  "bindE m f = (case m of Inl e \<Rightarrow> Inl e | Inr x \<Rightarrow> f x)"

fun mapE :: "('a \<Rightarrow> rxn_error + 'b) \<Rightarrow> 'a list \<Rightarrow> rxn_error + 'b list" where
  "mapE f [] = Inr []"
| "mapE f (x # xs) = bindE (f x) (\<lambda>y. bindE (mapE f xs) (\<lambda>ys. Inr (y # ys)))"

fun foldE :: "('a \<Rightarrow> 's \<Rightarrow> rxn_error + 's) \<Rightarrow> 'a list \<Rightarrow> 's \<Rightarrow> rxn_error + 's" where
  "foldE f [] s = Inr s"
| "foldE f (x # xs) s = bindE (f x s) (foldE f xs)"

text \<open>First pass (lines 93 to 122): can reaction \<open>c\<close> take place in region \<open>r\<close>? Every
  exception label equal to the region's label flips the answer.\<close>

definition bRxnInRegion :: "region_spec \<Rightarrow> chem_rxn_struct \<Rightarrow> bool" where
  "bRxnInRegion r c =
     (let b0 = (bEverywhere c
                \<and> ((bSurface c \<and> spec_type r \<noteq> REGION_NORMAL)
                    \<or> (\<not> bSurface c \<and> spec_type r = REGION_NORMAL)))
      in case spec_label r of
           None \<Rightarrow> b0
         | Some l \<Rightarrow>
             if length l > 0 then
               fold (\<lambda>e b. case e of
                              None \<Rightarrow> b
                            | Some x \<Rightarrow> if length x > 0 \<and> l = x then \<not> b else b)
                    (regionExceptionLabel c) b0
             else b0)"

definition regionRxnIDs :: "nat \<Rightarrow> chem_rxn_struct list \<Rightarrow> region_spec \<Rightarrow> nat list" where
  "regionRxnIDs MAX_RXNS chem_rxn r =
     filter (\<lambda>j. bRxnInRegion r (chem_rxn ! j)) [0..<MAX_RXNS]"

text \<open>One iteration of the loop over the reactions of a region (lines 256 to 397), for the
  region-local index \<open>j\<close> and \<open>curRxn = rxnInRegionID[j][i]\<close>: the exits, the order and the
  rate. \<open>num_reactants\<close> is a \<open>uint32_t\<close>, so the sum of the reactant counts is taken
  modulo \<open>2^32\<close>. \<open>DIFF_COEF_i\<close> is the row \<open>DIFF_COEF[i]\<close>, of \<open>NUM_MOL_TYPES\<close>
  entries; the absorbing rate reads it at \<open>j\<close>, the index of the reaction, as the source
  does, and an index past the end of the row is reported.\<close>

definition rxnOrderRate ::
  "region_spec \<Rightarrow> nat \<Rightarrow> dbl list \<Rightarrow> nat \<Rightarrow> chem_rxn_struct \<Rightarrow> rxn_error + (nat \<times> dbl)" where
  "rxnOrderRate r NUM_MOL_TYPES DIFF_COEF_i j c =
     (if surfRxnType c = RXN_MEMBRANE \<and> spec_surfaceType r \<noteq> SURFACE_MEMBRANE
        then Inl MembraneRxnInOtherRegion
      else if surfRxnType c \<noteq> RXN_MEMBRANE \<and> spec_surfaceType r = SURFACE_MEMBRANE
        then Inl OtherRxnInMembraneRegion
      else
        (let num_reactants = (\<Sum>k \<leftarrow> [0..<NUM_MOL_TYPES]. reactants c ! k) mod 2 ^ 32;
             s = actualSubSize r
         in if num_reactants = 0 then
              (if bSurface c \<and> surfRxnType c \<noteq> RXN_NORMAL then Inl ZerothOrderNotNormal
               else if plane r = PLANE_3D \<and> spec_type r = REGION_NORMAL
                 then Inr (num_reactants, dmul (dmul (dmul (rate_k c) s) s) s)
               else if spec_type r = REGION_NORMAL \<or> spec_type r = REGION_SURFACE_3D
                 then Inr (num_reactants, dmul (dmul (rate_k c) s) s)
               else Inr (num_reactants, dmul (rate_k c) s))
            else if num_reactants = 1 then
              (case surfRxnType c of
                 RXN_RECEPTOR \<Rightarrow> Inr (num_reactants, rate_k c)
               | RXN_MEMBRANE \<Rightarrow> Inr (num_reactants, rate_k c)
               | RXN_NORMAL \<Rightarrow> Inr (num_reactants, rate_k c)
               | RXN_ABSORBING \<Rightarrow>
                   if j < length DIFF_COEF_i then
                     Inr (num_reactants,
                          dmul (rate_k c)
                            (dsqrt (ddiv (dmul (Fin PI) (spec_dt r)) (DIFF_COEF_i ! j))))
                   else Inl DiffCoefReadOutsideRow
               | RXN_OTHER \<Rightarrow> Inl InvalidFirstOrderType)
            else if num_reactants = 2 then
              (if bSurface c \<and> surfRxnType c \<noteq> RXN_NORMAL then Inl SecondOrderNotNormal
               else if plane r = PLANE_3D \<and> spec_type r = REGION_NORMAL
                 then Inr (num_reactants, ddiv (ddiv (ddiv (rate_k c) s) s) s)
               else if spec_type r = REGION_NORMAL \<or> spec_type r = REGION_SURFACE_3D
                 then Inr (num_reactants, ddiv (ddiv (rate_k c) s) s)
               else Inr (num_reactants, ddiv (rate_k c) s))
            else Inl TooManyReactants))"

text \<open>The scan of the region's reactions for molecule type \<open>j\<close> (lines 410 to 434). Its
  variables are \<open>firstRxnID[j]\<close>, \<open>uniSumRate[j]\<close>, \<open>numInfRxn\<close> and \<open>bHasExclusiveRxn\<close>.
  \<open>k\<close> runs over the region-local indices; the source reads \<open>rxnOrder\<close> and \<open>rxnRate\<close>
  at \<open>k\<close>, and also \<open>chem_rxn[k]\<close>, the \<open>k\<close>-th reaction of the global array.\<close>

definition scanStep ::
  "chem_rxn_struct list \<Rightarrow> nat list \<Rightarrow> dbl list \<Rightarrow> nat \<Rightarrow> nat
   \<Rightarrow> nat list \<times> dbl \<times> nat \<times> bool \<Rightarrow> nat list \<times> dbl \<times> nat \<times> bool" where
  "scanStep chem_rxn order rate j k st =
     (case st of (ids, sumRate, numInfRxn, bHasExclusiveRxn) \<Rightarrow>
        if order ! k = 1 \<and> reactants (chem_rxn ! k) ! j > 0 then
          (ids @ [k],
           dadd sumRate (rate ! k),
           (if isINFINITY (rate ! k) then numInfRxn + 1 else numInfRxn),
           (if surfRxnType (chem_rxn ! k) \<noteq> RXN_NORMAL then True else bHasExclusiveRxn))
        else st)"

definition scanReactant ::
  "chem_rxn_struct list \<Rightarrow> nat list \<Rightarrow> dbl list \<Rightarrow> nat \<Rightarrow> nat \<Rightarrow> nat list \<times> dbl \<times> nat \<times> bool" where
  "scanReactant chem_rxn order rate numChemRxn j =
     fold (scanStep chem_rxn order rate j) [0..<numChemRxn] ([], Fin 0, 0, False)"

text \<open>One iteration of the loop that fills the cumulative table (lines 447 to 488), for
  position \<open>k\<close> in \<open>firstRxnID[j]\<close>. \<open>1/numInfRxn\<close> has two integer operands.\<close>

definition cumStep ::
  "chem_rxn_struct list \<Rightarrow> dbl list \<Rightarrow> dbl \<Rightarrow> nat list \<Rightarrow> dbl \<Rightarrow> nat \<Rightarrow> nat
   \<Rightarrow> (nat \<rightharpoonup> dbl) \<times> (nat \<rightharpoonup> dbl) \<Rightarrow> rxn_error + ((nat \<rightharpoonup> dbl) \<times> (nat \<rightharpoonup> dbl))" where
  "cumStep chem_rxn rate dt ids sumRate numInfRxn k st =
     (case st of (cum, rel) \<Rightarrow>
        (case surfRxnType (chem_rxn ! (ids ! k)) of
           RXN_ABSORBING \<Rightarrow>
             Inr (cum(0 \<mapsto> rate ! (ids ! k)), rel(0 \<mapsto> rate ! (ids ! k)))
         | RXN_OTHER \<Rightarrow> Inl InvalidFirstOrderType
         | _ \<Rightarrow>
             bindE (if k > 0 then (case cum (k - 1) of
                                     None \<Rightarrow> Inl UninitialisedRead
                                   | Some v \<Rightarrow> Inr (Some v))
                    else Inr (cum k))
               (\<lambda>start.
                  if isINFINITY (rate ! (ids ! k)) then
                    (case start of
                       None \<Rightarrow> Inl UninitialisedRead
                     | Some v \<Rightarrow>
                         Inr (cum(k \<mapsto> dadd v (Fin (real_of_int (1 div int numInfRxn)))),
                              rel(k \<mapsto> Fin (real_of_int (1 div int numInfRxn)))))
                  else
                    (let relk = ddiv (rate ! (ids ! k)) sumRate
                     in case start of
                          None \<Rightarrow> Inl UninitialisedRead
                        | Some v \<Rightarrow>
                            Inr (cum(k \<mapsto> dadd v (dmul relk
                                                    (dsub (Fin 1) (dexp (dmul (dneg dt) sumRate))))),
                                 rel(k \<mapsto> relk))))))"

text \<open>The body of the loop over the molecule types (lines 400 to 492) for type \<open>j\<close>: the
  scan, the exclusivity exit, the cumulative table and \<open>minRxnTimeRV[j]\<close>. The result is
  \<open>(firstRxnID[j], uniSumRate[j], uniCumProb[j], uniRelativeRate[j], minRxnTimeRV[j])\<close>.\<close>

definition initReactant ::
  "chem_rxn_struct list \<Rightarrow> region_spec \<Rightarrow> nat list \<Rightarrow> dbl list \<Rightarrow> nat \<Rightarrow> nat
   \<Rightarrow> rxn_error + (nat list \<times> dbl \<times> (nat \<rightharpoonup> dbl) \<times> (nat \<rightharpoonup> dbl) \<times> dbl)" where
  "initReactant chem_rxn r order rate numChemRxn j =
     (case scanReactant chem_rxn order rate numChemRxn j of
        (ids, sumRate, numInfRxn, bHasExclusiveRxn) \<Rightarrow>
          if bHasExclusiveRxn \<and> length ids > 1 then Inl ExclusiveRxnNotAlone
          else
            bindE (foldE (cumStep chem_rxn rate (spec_dt r) ids sumRate numInfRxn)
                     [0..<length ids] (Map.empty(0 \<mapsto> Fin 0), Map.empty))
              (\<lambda>(cum, rel).
                 Inr (ids, sumRate, cum, rel, dexp (dmul (dneg (spec_dt r)) sumRate))))"

text \<open>The third pass for one region (lines 250 to 494), given its list of reaction ids from
  the first pass. A region with no reaction is skipped (\<open>continue\<close>): its tables stay
  unallocated, here empty.\<close>

definition initRegion ::
  "nat \<Rightarrow> nat \<Rightarrow> chem_rxn_struct list \<Rightarrow> region_spec \<times> dbl list \<Rightarrow> rxn_error + region_rxn" where
  "initRegion NUM_MOL_TYPES MAX_RXNS chem_rxn rd =
     (case rd of (r, DIFF_COEF_i) \<Rightarrow>
        (let ids = regionRxnIDs MAX_RXNS chem_rxn r
         in if length ids = 0 then
              Inr \<lparr>rxnInRegionID = ids, rxnOrder = [], rxnRate = [], firstRxnID = [],
                   uniSumRate = [], uniCumProb = [], uniRelativeRate = [], minRxnTimeRV = []\<rparr>
            else
              bindE (mapE (\<lambda>j. rxnOrderRate r NUM_MOL_TYPES DIFF_COEF_i j (chem_rxn ! (ids ! j)))
                       [0..<length ids])
                (\<lambda>ors.
                   bindE (mapE (initReactant chem_rxn r (map fst ors) (map snd ors) (length ids))
                            [0..<NUM_MOL_TYPES])
                     (\<lambda>ts. Inr \<lparr>rxnInRegionID = ids,
                                 rxnOrder = map fst ors,
                                 rxnRate = map snd ors,
                                 firstRxnID = map (\<lambda>(i, s, c, u, m). i) ts,
                                 uniSumRate = map (\<lambda>(i, s, c, u, m). s) ts,
                                 uniCumProb = map (\<lambda>(i, s, c, u, m). c) ts,
                                 uniRelativeRate = map (\<lambda>(i, s, c, u, m). u) ts,
                                 minRxnTimeRV = map (\<lambda>(i, s, c, u, m). m) ts\<rparr>))))"

text \<open>\<open>initializeRegionChemRxn\<close>: the regions are initialised in order and the first exit
  ends the program. \<open>regionArray\<close> pairs each region with its row of \<open>DIFF_COEF\<close>.\<close>

definition initializeRegionChemRxn ::
  "(region_spec \<times> dbl list) list \<Rightarrow> nat \<Rightarrow> nat \<Rightarrow> chem_rxn_struct list
   \<Rightarrow> rxn_error + region_rxn list" where
  "initializeRegionChemRxn regionArray NUM_MOL_TYPES MAX_RXNS chem_rxn =
     mapE (initRegion NUM_MOL_TYPES MAX_RXNS chem_rxn) regionArray"

text \<open>The notions the specification uses for the first-order tables, for comparison with
  what the source computes: the compiled rate of a first-order reaction with rate constant
  \<open>k\<close>, which is \<open>k * sqrt (\<pi> * dt / D)\<close> for an Absorbing reaction, \<open>D\<close> the diffusion
  coefficient of its reactant, and \<open>k\<close> for the other types; a reaction \<open>k\<close> is a
  first-order reaction of molecule type \<open>j\<close> when its order is 1 and \<open>j\<close> is among its
  reactants; the
  increment \<open>(r_k / \<Sigma>r) * (1 - exp (- dt * \<Sigma>r))\<close> in the arithmetic of doubles; the types
  that are not Absorbing; and what the specification says of entry \<open>k\<close> of the table of one
  molecule type: a finite-rate entry of type Normal, Receptor or Membrane is the previous
  entry (0 before the first) plus the increment, and an Absorbing entry is the compiled
  rate, in slot 0.\<close>

definition firstOrderRate_spec :: "chem_rxn_struct \<Rightarrow> dbl \<Rightarrow> dbl \<Rightarrow> dbl" where
  "firstOrderRate_spec c dt D =
     (if surfRxnType c = RXN_ABSORBING
      then dmul (rate_k c) (dsqrt (ddiv (dmul (Fin PI) dt) D))
      else rate_k c)"

definition isFirstOrderOf :: "chem_rxn_struct list \<Rightarrow> nat list \<Rightarrow> nat \<Rightarrow> nat \<Rightarrow> bool" where
  "isFirstOrderOf chem_rxn order j k = (order ! k = 1 \<and> reactants (chem_rxn ! k) ! j > 0)"

definition cumIncrement :: "dbl \<Rightarrow> dbl \<Rightarrow> dbl \<Rightarrow> dbl" where
  "cumIncrement dt sumRate rk =
     dmul (ddiv rk sumRate) (dsub (Fin 1) (dexp (dmul (dneg dt) sumRate)))"

definition normalLike :: "rxn_type \<Rightarrow> bool" where
  "normalLike t = (t = RXN_NORMAL \<or> t = RXN_RECEPTOR \<or> t = RXN_MEMBRANE)"

definition cumEntryOK ::
  "chem_rxn_struct list \<Rightarrow> dbl list \<Rightarrow> dbl \<Rightarrow> nat list \<Rightarrow> dbl \<Rightarrow> (nat \<rightharpoonup> dbl) \<Rightarrow> nat \<Rightarrow> bool" where
  "cumEntryOK chem_rxn rate dt ids S cum k =
     ((normalLike (surfRxnType (chem_rxn ! (ids ! k))) \<and> \<not> isINFINITY (rate ! (ids ! k)) \<longrightarrow>
         (case (if k = 0 then Some (Fin 0) else cum (k - 1)) of
            None \<Rightarrow> False
          | Some prev \<Rightarrow> cum k = Some (dadd prev (cumIncrement dt S (rate ! (ids ! k))))))
      \<and> (surfRxnType (chem_rxn ! (ids ! k)) = RXN_ABSORBING \<longrightarrow> cum 0 = Some (rate ! (ids ! k))))"

text \<open>Concrete inputs: a normal region and a surface region that is not a membrane, both
  without label and with time step 1, and a reaction that is defined everywhere and has no
  exception.\<close>

definition exNormalRegion :: region_spec where
  "exNormalRegion = \<lparr>spec_label = None, spec_type = REGION_NORMAL, spec_surfaceType = NO_SURFACE,
      spec_dt = Fin 1, plane = PLANE_3D, actualSubSize = Fin 1, volume = Fin 1\<rparr>"

definition exSurfaceRegion :: region_spec where
  "exSurfaceRegion = \<lparr>spec_label = None, spec_type = REGION_SURFACE_3D,
      spec_surfaceType = SURFACE_INNER,
      spec_dt = Fin 1, plane = PLANE_3D, actualSubSize = Fin 1, volume = Fin 1\<rparr>"

definition exRxn :: "nat list \<Rightarrow> nat list \<Rightarrow> dbl \<Rightarrow> bool \<Rightarrow> rxn_type \<Rightarrow> chem_rxn_struct" where
  "exRxn rs ps kk surf ty = \<lparr>reactants = rs, products = ps, rate_k = kk, bSurface = surf,
      surfRxnType = ty, bEverywhere = True, regionExceptionLabel = []\<rparr>"

subsection \<open>loadConfig (file\_io.c): shape and bMicro of the regions\<close>

text \<open>The cJSON library and the helper \<open>cJSON_bItemValid\<close> are not among the sources. A
  JSON object is represented by what the calls of the source return for it:
  \<open>itemValid name ty\<close> is \<open>cJSON_bItemValid(curObj, name, ty)\<close>, and \<open>valuestring name\<close>,
  \<open>valueint name\<close> are the fields of \<open>cJSON_GetObjectItem(curObj, name)\<close>.\<close>

datatype json_type = cJSON_True | cJSON_Number | cJSON_String | cJSON_Array | cJSON_Object

record json_obj =
  itemValid :: "string \<Rightarrow> json_type \<Rightarrow> bool"
  valuestring :: "string \<Rightarrow> string"
  valueint :: "string \<Rightarrow> int"

datatype config_warning =
    ShapeUndefined
  | ShapeInvalid
  | MicroscopicInvalid
  | MicroscopicNotNeeded

datatype config_error = RegionNotObject nat

text \<open>Of \<open>struct spec_region3D\<close>, the fields \<open>shape\<close> and \<open>bMicro\<close>, with the warnings
  that the statements assigning them print.\<close>

record spec_region3D =
  region_shape :: shape
  bMicro :: bool
  warnings :: "config_warning list"

text \<open>The body of the loop over the regions (lines 615 to 1297), restricted to the
  statements that assign \<open>shape\<close> and \<open>bMicro\<close>: the shape from the string "Shape" (lines 652
  to 680), then one of three branches by shape: rectangle or box (bMicro from the
  configuration, lines 876 to 887), cylinder (line 966), and round (line 1199). No other
  statement of loadConfig assigns either field.\<close>

definition loadRegion :: "json_obj \<Rightarrow> spec_region3D" where
  "loadRegion curObj =
     (let (tempString, w1) =
            (if \<not> itemValid curObj ''Shape'' cJSON_String
             then (''Rectangular Box'', [ShapeUndefined])
             else (valuestring curObj ''Shape'', []));
          (sh, w2) =
            (if tempString = ''Rectangle'' then (RECTANGLE, [])
             else if tempString = ''Circle'' then (CIRCLE, [])
             else if tempString = ''Rectangular Box'' then (RECTANGULAR_BOX, [])
             else if tempString = ''Sphere'' then (SPHERE, [])
             else if tempString = ''Cylinder'' then (CYLINDER, [])
             else (RECTANGULAR_BOX, [ShapeInvalid]));
          (micro, w3) =
            (if sh = RECTANGULAR_BOX \<or> sh = RECTANGLE then
               (if \<not> itemValid curObj ''Is Region Microscopic?'' cJSON_True
                then (False, [MicroscopicInvalid])
                else (valueint curObj ''Is Region Microscopic?'' \<noteq> 0, []))
             else if sh = CYLINDER then
               (True, if itemValid curObj ''Is Region Microscopic?'' cJSON_True
                      then [MicroscopicNotNeeded] else [])
             else
               (True, if itemValid curObj ''Is Region Microscopic?'' cJSON_True
                      then [MicroscopicNotNeeded] else []))
      in \<lparr>region_shape = sh, bMicro = micro, warnings = w1 @ w2 @ w3\<rparr>)"

text \<open>The loop: an item of "Region Specification" that is not a JSON object (here \<open>None\<close>)
  ends the program.\<close>

fun loadRegions :: "nat \<Rightarrow> json_obj option list \<Rightarrow> config_error + spec_region3D list" where
  "loadRegions curArrayItem [] = Inr []"
| "loadRegions curArrayItem (None # rest) = Inl (RegionNotObject curArrayItem)"
| "loadRegions curArrayItem (Some curObj # rest) =
     (case loadRegions (Suc curArrayItem) rest of
        Inl e \<Rightarrow> Inl e
      | Inr regs \<Rightarrow> Inr (loadRegion curObj # regs))"

section \<open>Theorems\<close>

lemmas plane_defs = PLANE_3D_def PLANE_XY_def PLANE_XZ_def PLANE_YZ_def

text \<open>
  C1. The claim: for a sphere of radius r, boundaryVolume returns (4/3) * \<pi> * r^3. The source
  evaluates the coefficient \<open>4 / 3\<close> on integers, which is 1: for the unit sphere centred at
  the origin it returns \<pi>, which is not (4/3) * \<pi>.
\<close>

theorem boundaryVolume_sphere_unit:
  "boundaryVolume SPHERE [0, 0, 0, 1, 0, 0] = PI
   \<and> boundaryVolume SPHERE [0, 0, 0, 1, 0, 0] \<noteq> 4 / 3 * PI * 1 ^ 3"
  by (simp add: boundaryVolume_def PI_def)

text \<open>
  C3. The claim: for a cylinder and a box, bBoundaryIntersect tests each of the four
  distinct corners of the rectangle against the circle, and the centre of the circle against
  the rectangle. The four square-root disjuncts of the source are one and the same test, of
  the corner with the two lower coordinates. For the cylinder along z at the origin with
  radius 1 and length 1, and the box [-3, -1/2] x [-3, -1/2] x [0, 1], only the corner
  (-1/2, -1/2) lies in the circle: the source answers false in both argument orders, and the
  test with four distinct corners answers true.
\<close>

theorem bBoundaryIntersect_cylinder_box_one_corner:
  "bBoundaryIntersect CYLINDER [0, 0, 0, 1, real_of_int PLANE_XY, 1]
       RECTANGULAR_BOX [-3, -1/2, -3, -1/2, 0, 1] 0 = False
   \<and> bBoundaryIntersect RECTANGULAR_BOX [-3, -1/2, -3, -1/2, 0, 1]
       CYLINDER [0, 0, 0, 1, real_of_int PLANE_XY, 1] 0 = False
   \<and> intersectCylinderBox_spec [0, 0, 0, 1, real_of_int PLANE_XY, 1]
       [-3, -1/2, -3, -1/2, 0, 1] 0 = True"
  by (simp add: bBoundaryIntersect_def intersectCylinderBox_def intersectCylinderBox_spec_def
      crossSectionOverlap_spec_def orientation_def squareDBL_def plane_defs)

text \<open>
  C5. The claim: for a cylinder, bPointOnFace compares the radial distance of the point with
  the radius boundary1[3], at most the radius on a cap and equal to the radius on the mantle.
  The source compares with boundary1[5], the length. For the cylinder along z at the origin
  with radius 1 and length 5: the point (3, 0, 0), at radial distance 3, is accepted on the
  lower cap (face 4); the point (5, 0, 0) is accepted on the mantle (face 0); and the point
  (1, 0, 0), which is on the mantle, is rejected.
\<close>

theorem bPointOnFace_cylinder_compares_length:
  "bPointOnFace [3, 0, 0] CYLINDER [0, 0, 0, 1, real_of_int PLANE_XY, 5] 4 = True
   \<and> sqrt (squareDBL (3 - 0) + squareDBL (0 - 0)) > [0, 0, 0, 1, real_of_int PLANE_XY, 5] ! 3
   \<and> bPointOnFace [5, 0, 0] CYLINDER [0, 0, 0, 1, real_of_int PLANE_XY, 5] 0 = True
   \<and> bPointOnFace [1, 0, 0] CYLINDER [0, 0, 0, 1, real_of_int PLANE_XY, 5] 0 = False
   \<and> bPointInBoundary [3, 0, 0] CYLINDER [0, 0, 0, 1, real_of_int PLANE_XY, 5] = False"
proof -
  have s25: "sqrt 25 = (5::real)" by (rule real_sqrt_unique) simp_all
  show ?thesis
    by (simp add: bPointOnFace_def bPointInBoundary_def squareDBL_def plane_defs s25 real_le_lsqrt)
qed

text \<open>
  C10. defineLine never divides by zero and is total: for any two points it returns, with no
  fault, length 0 and direction (0, 0, 0) when the distance between the points is zero, and
  otherwise the distance and the difference of the points divided by the distance.
\<close>

theorem defineLine_total:
  "defineLine p1 p2 =
     Inr (if pointDistance p1 p2 = 0 then ([0, 0, 0], 0)
          else ([(p2 ! 0 - p1 ! 0) / pointDistance p1 p2,
                 (p2 ! 1 - p1 ! 1) / pointDistance p1 p2,
                 (p2 ! 2 - p1 ! 2) / pointDistance p1 p2], pointDistance p1 p2))"
proof -
  let ?s = "squareDBL (p2 ! 0 - p1 ! 0) + squareDBL (p2 ! 1 - p1 ! 1) + squareDBL (p2 ! 2 - p1 ! 2)"
  have nn: "0 \<le> ?s" by (simp add: squareDBL_def)
  have pd: "pointDistance p1 p2 = sqrt ?s" by (simp add: pointDistance_def)
  show ?thesis
  proof (cases "sqrt ?s > 0")
    case True
    then show ?thesis by (simp add: defineLine_def pd Let_def fdiv_def bindF_def)
  next
    case False
    with nn have "sqrt ?s = 0" by (metis real_sqrt_ge_zero order_le_less)
    then show ?thesis by (simp add: defineLine_def pd Let_def)
  qed
qed

text \<open>
  C2, as claimed: in every line-versus-plane test the division by L[axis] is not executed
  when L[axis] is zero. It is executed: for the line from the origin along (0, 1, 0) and
  face 0 (lower x) of the unit box, bLineHitInfinitePlane divides by L[0] = 0.
\<close>

theorem bLineHitInfinitePlane_divides_by_zero:
  "bLineHitInfinitePlane [0, 0, 0] [0, 1, 0] (Finite 1) RECTANGULAR_BOX [0, 1, 0, 1, 0, 1] 0
       False 0 [0, 0, 0]
     = Inl DivisionByZero"
  by (simp add: bLineHitInfinitePlane_def fdiv_def bindF_def)

text \<open>
  C2, amended: the line-versus-plane tests divide by L[axis] without looking at the
  direction vector first. For each of the six faces of a box, each of the three planes of a
  rectangle and each of the two caps of a cylinder, the division is executed with a zero
  divisor exactly when L[axis] is zero; when L[axis] is not zero the distance is
  (face coordinate - p1[axis]) / L[axis], and bLineHitInfinitePlane reports a hit iff that
  distance is positive and at most the length.
\<close>

theorem line_plane_division_unguarded:
  "(0 \<le> planeID \<and> planeID \<le> 5 \<longrightarrow>
      bLineHitInfinitePlane p1 L len RECTANGULAR_BOX boundary1 planeID bInside d ip =
        (if L ! nat (planeID div 2) = 0 then Inl DivisionByZero
         else (let d' = (boundary1 ! nat planeID - p1 ! nat (planeID div 2)) / L ! nat (planeID div 2)
               in Inr (d' > 0 \<and> le_bound d' len, d', linePoint p1 L d'))))
   \<and> bLineHitInfinitePlane p1 L len RECTANGLE boundary1 PLANE_XY bInside d ip =
        (if L ! 2 = 0 then Inl DivisionByZero
         else (let d' = (boundary1 ! 4 - p1 ! 2) / L ! 2
               in Inr (d' > 0 \<and> le_bound d' len, d', linePoint p1 L d')))
   \<and> bLineHitInfinitePlane p1 L len RECTANGLE boundary1 PLANE_XZ bInside d ip =
        (if L ! 1 = 0 then Inl DivisionByZero
         else (let d' = (boundary1 ! 2 - p1 ! 1) / L ! 1
               in Inr (d' > 0 \<and> le_bound d' len, d', linePoint p1 L d')))
   \<and> bLineHitInfinitePlane p1 L len RECTANGLE boundary1 PLANE_YZ bInside d ip =
        (if L ! 0 = 0 then Inl DivisionByZero
         else (let d' = (boundary1 ! 0 - p1 ! 0) / L ! 0
               in Inr (d' > 0 \<and> le_bound d' len, d', linePoint p1 L d')))
   \<and> cylinderPlaneDistance p1 L boundary1 bInside along across1 across2 (int (along * 2)) =
        (if L ! along = 0 then Inl DivisionByZero
         else Inr (Some ((boundary1 ! along - p1 ! along) / L ! along)))
   \<and> cylinderPlaneDistance p1 L boundary1 bInside along across1 across2 (int (along * 2 + 1)) =
        (if L ! along = 0 then Inl DivisionByZero
         else Inr (Some ((boundary1 ! along + boundary1 ! 5 - p1 ! along) / L ! along)))"
proof -
  have box: "bLineHitInfinitePlane p1 L len RECTANGULAR_BOX boundary1 planeID bInside d ip =
        (if L ! nat (planeID div 2) = 0 then Inl DivisionByZero
         else (let d' = (boundary1 ! nat planeID - p1 ! nat (planeID div 2)) / L ! nat (planeID div 2)
               in Inr (d' > 0 \<and> le_bound d' len, d', linePoint p1 L d')))"
    if "0 \<le> planeID" "planeID \<le> 5"
  proof -
    from that consider "planeID = 0" | "planeID = 1" | "planeID = 2" | "planeID = 3"
      | "planeID = 4" | "planeID = 5"
      by linarith
    then show ?thesis
      by cases (simp_all add: bLineHitInfinitePlane_def fdiv_def bindF_def Let_def)
  qed
  have rect: "bLineHitInfinitePlane p1 L len RECTANGLE boundary1 PLANE_XY bInside d ip =
        (if L ! 2 = 0 then Inl DivisionByZero
         else (let d' = (boundary1 ! 4 - p1 ! 2) / L ! 2
               in Inr (d' > 0 \<and> le_bound d' len, d', linePoint p1 L d')))"
      "bLineHitInfinitePlane p1 L len RECTANGLE boundary1 PLANE_XZ bInside d ip =
        (if L ! 1 = 0 then Inl DivisionByZero
         else (let d' = (boundary1 ! 2 - p1 ! 1) / L ! 1
               in Inr (d' > 0 \<and> le_bound d' len, d', linePoint p1 L d')))"
      "bLineHitInfinitePlane p1 L len RECTANGLE boundary1 PLANE_YZ bInside d ip =
        (if L ! 0 = 0 then Inl DivisionByZero
         else (let d' = (boundary1 ! 0 - p1 ! 0) / L ! 0
               in Inr (d' > 0 \<and> le_bound d' len, d', linePoint p1 L d')))"
    by (simp_all add: bLineHitInfinitePlane_def fdiv_def bindF_def Let_def plane_defs)
  have cyl: "cylinderPlaneDistance p1 L boundary1 bInside along across1 across2 (int (along * 2)) =
        (if L ! along = 0 then Inl DivisionByZero
         else Inr (Some ((boundary1 ! along - p1 ! along) / L ! along)))"
      "cylinderPlaneDistance p1 L boundary1 bInside along across1 across2 (int (along * 2 + 1)) =
        (if L ! along = 0 then Inl DivisionByZero
         else Inr (Some ((boundary1 ! along + boundary1 ! 5 - p1 ! along) / L ! along)))"
    by (simp_all add: cylinderPlaneDistance_def fdiv_def bindF_def)
  from box rect cyl show ?thesis by blast
qed

theorem line_plane_division_unguarded_witness:
  "(0::int) \<le> 3 \<and> (3::int) \<le> 5
   \<and> bLineHitInfinitePlane [0, 0, 0] [1, 1, 1] (Finite 10) RECTANGULAR_BOX [1, 2, 1, 2, 1, 2] 3
        False 0 [0, 0, 0] = Inr (True, 2, [2, 2, 2])
   \<and> bLineHitInfinitePlane [0, 0, 0] [1, 0, 1] (Finite 10) RECTANGULAR_BOX [1, 2, 1, 2, 1, 2] 3
        False 0 [0, 0, 0] = Inl DivisionByZero"
  using line_plane_division_unguarded [of 3 "[0, 0, 0]" "[1, 1, 1]" "Finite 10" "[1, 2, 1, 2, 1, 2]"
      False 0 "[0, 0, 0]" 0 0 0]
    line_plane_division_unguarded [of 3 "[0, 0, 0]" "[1, 0, 1]" "Finite 10" "[1, 2, 1, 2, 1, 2]"
      False 0 "[0, 0, 0]" 0 0 0]
  by (simp add: linePoint_def)

subsection \<open>The box mirror in binary64\<close>

lemma p2_shift: "0 \<le> k \<Longrightarrow> 2 powr real_of_int (E + k) = 2 powr real_of_int E * 2 ^ nat k"
  by (simp add: powr_add powr_realpow [symmetric])

lemma p2_shift_nat: "2 powr (real_of_int E + real k) = 2 powr real_of_int E * 2 ^ k"
  by (simp add: powr_add powr_realpow)

lemma roundHalfEven_err: "2 * \<bar>roundHalfEven M k * 2 ^ k - M\<bar> \<le> 2 ^ k"
proof -
  define p :: int where "p = 2 ^ k"
  define q where "q = M div p"
  define r where "r = M mod p"
  have p0: "0 < p" by (simp add: p_def)
  have M: "M = q * p + r" unfolding q_def r_def by (rule div_mult_mod_eq [symmetric])
  have r0: "0 \<le> r" and r1: "r < p" using p0 by (simp_all add: r_def)
  have rhe: "roundHalfEven M k =
      (if 2 * r < p then q else if 2 * r > p then q + 1 else if even q then q else q + 1)"
    by (simp add: roundHalfEven_def Let_def p_def q_def r_def)
  have a: "q * p - M = - r" using M by linarith
  have b: "(q + 1) * p - M = p - r" using M by (simp add: algebra_simps)
  have "2 * \<bar>roundHalfEven M k * p - M\<bar> \<le> p"
    unfolding rhe using r0 r1 by (auto simp: a b)
  then show ?thesis by (simp add: p_def)
qed

lemma finite64_B: "finite64 m e = B m' e' \<Longrightarrow> m' = m \<and> e' = e"
  by (auto simp: finite64_def split: if_splits)

text \<open>Rounding a number of at least \<open>2^-1074\<close> granularity has relative error at most
  \<open>2^-53\<close>.\<close>

lemma round64_error:
  assumes E: "- 1074 \<le> E" and r: "round64 M E = B m e"
  shows "- 1074 \<le> e
       \<and> \<bar>val64 (B m e) - real_of_int M * 2 powr real_of_int E\<bar>
           \<le> \<bar>real_of_int M * 2 powr real_of_int E\<bar> / 2 ^ 53"
proof (cases "bitlen \<bar>M\<bar> \<le> 53")
  case True
  with E r have "m = M \<and> e = E" by (auto simp: round64_def dest: finite64_B)
  with E show ?thesis by simp
next
  case False
  define k where "k = nat (bitlen \<bar>M\<bar> - 53)"
  from False have k1: "1 \<le> k" and bk: "bitlen \<bar>M\<bar> = int k + 53" by (simp_all add: k_def)
  from False E have emax: "max (bitlen \<bar>M\<bar> + E - 53) (- 1074) = E + int k"
    by (simp add: k_def)
  from False r emax have me: "m = roundHalfEven M k" "e = E + int k"
    by (auto simp: round64_def Let_def dest!: finite64_B)
  from False have Mpos: "0 < \<bar>M\<bar>"
    by (metis bitlen_eq_zero_iff zero_le_numeral linorder_not_less)
  from bitlen_bounds [OF Mpos] bk have low: "2 ^ (k + 52) \<le> \<bar>M\<bar>"
    by (simp add: nat_add_distrib add.commute)
  let ?d = "m * 2 ^ k - M"
  from roundHalfEven_err [of M k] me have "2 * \<bar>?d\<bar> \<le> 2 ^ k" by simp
  then have "2 ^ 53 * (2 * \<bar>?d\<bar>) \<le> 2 ^ 53 * (2::int) ^ k" by simp
  also have "\<dots> = 2 * 2 ^ (k + 52)" by (simp add: power_add)
  also have "\<dots> \<le> 2 * \<bar>M\<bar>" using low by simp
  finally have di: "2 ^ 53 * \<bar>?d\<bar> \<le> \<bar>M\<bar>" by simp
  then have "real_of_int (2 ^ 53 * \<bar>?d\<bar>) \<le> real_of_int \<bar>M\<bar>"
    by (rule of_int_le_iff [THEN iffD2])
  then have dr: "\<bar>real_of_int ?d\<bar> \<le> \<bar>real_of_int M\<bar> / 2 ^ 53"
    by (simp add: field_simps)
  have "val64 (B m e) - real_of_int M * 2 powr real_of_int E
         = real_of_int ?d * 2 powr real_of_int E"
    using me by (simp add: p2_shift_nat algebra_simps)
  then have "\<bar>val64 (B m e) - real_of_int M * 2 powr real_of_int E\<bar>
         = \<bar>real_of_int ?d\<bar> * 2 powr real_of_int E"
    by (simp add: abs_mult)
  also have "\<dots> \<le> \<bar>real_of_int M\<bar> / 2 ^ 53 * 2 powr real_of_int E"
    using dr by (simp add: mult_right_mono)
  finally show ?thesis using me E by (simp add: abs_mult)
qed

lemma fadd_value:
  "real_of_int (m1 * 2 ^ nat (e1 - min e1 e2) + m2 * 2 ^ nat (e2 - min e1 e2))
     * 2 powr real_of_int (min e1 e2)
   = val64 (B m1 e1) + val64 (B m2 e2)"
proof -
  let ?E = "min e1 e2"
  have a: "2 powr real_of_int e1 = 2 powr real_of_int ?E * 2 ^ nat (e1 - ?E)"
    using p2_shift [of "e1 - ?E" ?E] by simp
  have b: "2 powr real_of_int e2 = 2 powr real_of_int ?E * 2 ^ nat (e2 - ?E)"
    using p2_shift [of "e2 - ?E" ?E] by simp
  show ?thesis
    apply (simp only: val64.simps)
    apply (subst a, subst b)
    apply (simp add: algebra_simps)
    done
qed

lemma fadd_error:
  assumes "- 1074 \<le> e1" and "- 1074 \<le> e2" and "fadd (B m1 e1) (B m2 e2) = B m e"
  shows "- 1074 \<le> e
       \<and> \<bar>val64 (B m e) - (val64 (B m1 e1) + val64 (B m2 e2))\<bar>
           \<le> \<bar>val64 (B m1 e1) + val64 (B m2 e2)\<bar> / 2 ^ 53"
proof -
  let ?E = "min e1 e2"
  let ?M = "m1 * 2 ^ nat (e1 - ?E) + m2 * 2 ^ nat (e2 - ?E)"
  from assms(1,2) have E: "- 1074 \<le> ?E" by simp
  from assms(3) have r: "round64 ?M ?E = B m e" by (simp add: Let_def)
  from round64_error [OF E r] show ?thesis
    unfolding fadd_value .
qed

lemma fsub_error:
  assumes "- 1074 \<le> e1" and "- 1074 \<le> e2" and "fsub (B m1 e1) (B m2 e2) = B m e"
  shows "- 1074 \<le> e
       \<and> \<bar>val64 (B m e) - (val64 (B m1 e1) - val64 (B m2 e2))\<bar>
           \<le> \<bar>val64 (B m1 e1) - val64 (B m2 e2)\<bar> / 2 ^ 53"
proof -
  from assms(3) have "fadd (B m1 e1) (B (- m2) e2) = B m e" by (simp add: fsub_def)
  from fadd_error [OF assms(1,2) this] show ?thesis by simp
qed

text \<open>Doubling a double is exact.\<close>

lemma fadd_double_exact:
  assumes m: "\<bar>m\<bar> < 2 ^ 53" and e: "- 1074 \<le> e" and r: "fadd (B m e) (B m e) = B m' e'"
  shows "- 1074 \<le> e' \<and> val64 (B m' e') = 2 * val64 (B m e)"
proof -
  from r have r': "round64 (2 * m) e = B m' e'" by (simp add: Let_def)
  show ?thesis
  proof (cases "bitlen \<bar>2 * m\<bar> \<le> 53")
    case True
    with e r' have "m' = 2 * m \<and> e' = e" by (auto simp: round64_def dest: finite64_B)
    with e show ?thesis by simp
  next
    case False
    from m have "\<bar>2 * m\<bar> < 2 ^ nat 54" by simp
    then have "bitlen \<bar>2 * m\<bar> \<le> 54" by (simp add: bitlen_le_iff_power)
    with False have b: "bitlen \<bar>2 * m\<bar> = 54" by simp
    with e have emax: "max (bitlen \<bar>2 * m\<bar> + e - 53) (- 1074) = e + 1" by simp
    have "roundHalfEven (2 * m) 1 = m" by (simp add: roundHalfEven_def Let_def)
    with False r' emax have "m' = m \<and> e' = e + 1"
      by (auto simp: round64_def Let_def dest!: finite64_B)
    with e show ?thesis by (simp add: powr_add)
  qed
qed

text \<open>Two roundings of relative error \<open>u\<close>, of \<open>T - x\<close> and then of \<open>T\<close> minus the first
  result.\<close>

lemma mirror_twice_bound:
  fixes T x m1 m2 u :: real
  assumes "0 \<le> u" and "\<bar>m1 - (T - x)\<bar> \<le> \<bar>T - x\<bar> * u" and "\<bar>m2 - (T - m1)\<bar> \<le> \<bar>T - m1\<bar> * u"
  shows "\<bar>m2 - x\<bar> \<le> u * \<bar>x\<bar> + u * (1 + u) * \<bar>T - x\<bar>"
proof -
  have a: "\<bar>T - m1\<bar> \<le> \<bar>x\<bar> + \<bar>T - x\<bar> * u" using assms(2) by linarith
  have "\<bar>m2 - x\<bar> \<le> \<bar>m2 - (T - m1)\<bar> + \<bar>m1 - (T - x)\<bar>" by linarith
  also have "\<dots> \<le> \<bar>T - m1\<bar> * u + \<bar>T - x\<bar> * u" using assms(2,3) by linarith
  also have "\<dots> \<le> (\<bar>x\<bar> + \<bar>T - x\<bar> * u) * u + \<bar>T - x\<bar> * u"
    using a assms(1) by (simp add: mult_right_mono)
  also have "\<dots> = u * \<bar>x\<bar> + u * (1 + u) * \<bar>T - x\<bar>" by (simp add: algebra_simps)
  finally show ?thesis .
qed

lemma mirror_coord_twice:
  assumes bf: "isFiniteDouble bf" and c: "isFiniteDouble c"
    and fin: "isFinite64 (fsub (fadd bf bf) (fsub (fadd bf bf) c))"
  shows "\<bar>val64 (fsub (fadd bf bf) (fsub (fadd bf bf) c)) - val64 c\<bar>
           \<le> (1 / 2 ^ 53) * \<bar>val64 c\<bar>
             + (1 / 2 ^ 53) * (1 + 1 / 2 ^ 53) * \<bar>2 * val64 bf - val64 c\<bar>"
proof -
  from bf obtain mb eb where b: "bf = B mb eb" and mb: "\<bar>mb\<bar> < 2 ^ 53" and eb: "- 1074 \<le> eb"
    by (cases bf) auto
  from c obtain mc ec where cc: "c = B mc ec" and ec: "- 1074 \<le> ec"
    by (cases c) auto
  from fin obtain mT eT where T: "fadd bf bf = B mT eT"
    by (cases "fadd bf bf"; cases "fsub (fadd bf bf) c") (auto simp: fsub_def cc)
  from fin T obtain m1 e1 where m1: "fsub (B mT eT) c = B m1 e1"
    by (cases "fsub (B mT eT) c") (auto simp: fsub_def)
  from fin T m1 obtain m2 e2 where m2: "fsub (B mT eT) (B m1 e1) = B m2 e2"
    by (cases "fsub (B mT eT) (B m1 e1)") auto
  from fadd_double_exact [OF mb eb T [unfolded b]]
  have eT: "- 1074 \<le> eT" and vT: "val64 (B mT eT) = 2 * val64 bf" by (simp_all add: b)
  from fsub_error [OF eT ec m1 [unfolded cc]]
  have e1: "- 1074 \<le> e1"
    and r1: "\<bar>val64 (B m1 e1) - (val64 (B mT eT) - val64 c)\<bar>
              \<le> \<bar>val64 (B mT eT) - val64 c\<bar> * (1 / 2 ^ 53)"
    by (simp_all add: cc)
  from fsub_error [OF eT e1 m2]
  have r2: "\<bar>val64 (B m2 e2) - (val64 (B mT eT) - val64 (B m1 e1))\<bar>
              \<le> \<bar>val64 (B mT eT) - val64 (B m1 e1)\<bar> * (1 / 2 ^ 53)"
    by simp
  from mirror_twice_bound [OF _ r1 r2]
  have "\<bar>val64 (B m2 e2) - val64 c\<bar>
          \<le> (1 / 2 ^ 53) * \<bar>val64 c\<bar>
            + (1 / 2 ^ 53) * (1 + 1 / 2 ^ 53) * \<bar>val64 (B mT eT) - val64 c\<bar>"
    by simp
  then show ?thesis unfolding T m1 m2 vT .
qed

lemma list3: "length p = 3 \<Longrightarrow> [p ! 0, p ! 1, p ! 2] = p"
  by (cases p; simp; case_tac list; simp; case_tac lista; simp)

text \<open>
  C8, as claimed: for every box, face and point, the mirror of reflectPoint applied twice
  returns the original point to within dist_error. The mirror is computed in doubles and
  each of its operations rounds. At the face x = 1 of the unit box, the point whose x is the
  double nearest 0.3 (5404319552844595 * 2^-54) comes back with x larger by 2^-54, more
  than a tolerance of 10^-18 (10^-12 of a base size of 10^-6); at a face x = 10^16
  (the double 152587890625 * 2^16) the point with x = 1 comes back with x = 0, off by 1.
\<close>

theorem reflect_box_twice_not_exact:
  "reflectBoxMirror [B 0 0, B 1 0, B 0 0, B 1 0, B 0 0, B 1 0] 1
       [B 5404319552844595 (- 54), B 0 0, B 0 0]
     = (True, [B 7656119366529843 (- 52), B 0 0, B 0 0])
   \<and> reflectBoxMirror [B 0 0, B 1 0, B 0 0, B 1 0, B 0 0, B 1 0] 1
       [B 7656119366529843 (- 52), B 0 0, B 0 0]
     = (True, [B 1351079888211149 (- 52), B 0 0, B 0 0])
   \<and> val64 (B 1351079888211149 (- 52)) - val64 (B 5404319552844595 (- 54)) = 1 / 2 ^ 54
   \<and> (1::real) / 2 ^ 54 > 1 / 10 ^ 18
   \<and> reflectBoxMirror [B 0 0, B 152587890625 16, B 0 0, B 1 0, B 0 0, B 1 0] 1
       [B 1 0, B 0 0, B 0 0]
     = (True, [B 5000000000000000 2, B 0 0, B 0 0])
   \<and> reflectBoxMirror [B 0 0, B 152587890625 16, B 0 0, B 1 0, B 0 0, B 1 0] 1
       [B 5000000000000000 2, B 0 0, B 0 0]
     = (True, [B 0 2, B 0 0, B 0 0])
   \<and> val64 (B 0 2) - val64 (B 1 0) = - 1"
proof -
  have a: "reflectBoxMirror [B 0 0, B 1 0, B 0 0, B 1 0, B 0 0, B 1 0] 1
       [B 5404319552844595 (- 54), B 0 0, B 0 0]
     = (True, [B 7656119366529843 (- 52), B 0 0, B 0 0])"
    by code_simp
  have b: "reflectBoxMirror [B 0 0, B 1 0, B 0 0, B 1 0, B 0 0, B 1 0] 1
       [B 7656119366529843 (- 52), B 0 0, B 0 0]
     = (True, [B 1351079888211149 (- 52), B 0 0, B 0 0])"
    by code_simp
  have c: "reflectBoxMirror [B 0 0, B 152587890625 16, B 0 0, B 1 0, B 0 0, B 1 0] 1
       [B 1 0, B 0 0, B 0 0]
     = (True, [B 5000000000000000 2, B 0 0, B 0 0])"
    by code_simp
  have d: "reflectBoxMirror [B 0 0, B 152587890625 16, B 0 0, B 1 0, B 0 0, B 1 0] 1
       [B 5000000000000000 2, B 0 0, B 0 0]
     = (True, [B 0 2, B 0 0, B 0 0])"
    by code_simp
  have v: "val64 (B 1351079888211149 (- 52)) - val64 (B 5404319552844595 (- 54)) = 1 / 2 ^ 54"
    by (simp add: powr_minus field_simps)
  have w: "(1::real) / 2 ^ 54 > 1 / 10 ^ 18" by simp
  from a b c d v w show ?thesis by simp
qed

text \<open>
  C8, amended. For every box, every face 0..5 of it and every point, with the face
  coordinate b and the point's coordinate x along the face's axis finite doubles: the mirror
  of reflectPoint succeeds, and applied again to its result, if no operation overflows, it
  returns the two coordinates parallel to the face exactly as they were and the coordinate
  along the axis with an error of at most u * |x| + u * (1 + u) * |2 * b - x|, where
  u = 2^-53. (In exact arithmetic the error is 0; in doubles it is within dist_error when
  this bound is.)
\<close>

theorem reflect_box_twice_rounding:
  assumes f0: "0 \<le> planeID" and f5: "planeID \<le> 5" and len: "length p = 3"
    and bf: "isFiniteDouble (boundary1 ! nat planeID)"
    and px: "isFiniteDouble (p ! nat (planeID div 2))"
    and fin: "isFinite64 (snd (reflectBoxMirror boundary1 planeID
                (snd (reflectBoxMirror boundary1 planeID p))) ! nat (planeID div 2))"
  shows "fst (reflectBoxMirror boundary1 planeID p)
       \<and> fst (reflectBoxMirror boundary1 planeID (snd (reflectBoxMirror boundary1 planeID p)))
       \<and> (\<forall>i < 3. i \<noteq> nat (planeID div 2) \<longrightarrow>
            snd (reflectBoxMirror boundary1 planeID
                  (snd (reflectBoxMirror boundary1 planeID p))) ! i = p ! i)
       \<and> \<bar>val64 (snd (reflectBoxMirror boundary1 planeID
                  (snd (reflectBoxMirror boundary1 planeID p))) ! nat (planeID div 2))
            - val64 (p ! nat (planeID div 2))\<bar>
           \<le> (1 / 2 ^ 53) * \<bar>val64 (p ! nat (planeID div 2))\<bar>
             + (1 / 2 ^ 53) * (1 + 1 / 2 ^ 53)
               * \<bar>2 * val64 (boundary1 ! nat planeID) - val64 (p ! nat (planeID div 2))\<bar>"
proof -
  obtain x y z where p: "p = [x, y, z]"
    using len by (metis list3)
  from f0 f5 consider "planeID = 0" | "planeID = 1" | "planeID = 2" | "planeID = 3"
    | "planeID = 4" | "planeID = 5"
    by linarith
  then show ?thesis
  proof cases
    case 1
    with bf px fin p show ?thesis
      using mirror_coord_twice [of "boundary1 ! 0" x]
      by (simp add: reflectBoxMirror_def reflectBoxFace_def less_Suc_eq numeral_3_eq_3)
  next
    case 2
    with bf px fin p show ?thesis
      using mirror_coord_twice [of "boundary1 ! 1" x]
      by (simp add: reflectBoxMirror_def reflectBoxFace_def less_Suc_eq numeral_3_eq_3)
  next
    case 3
    with bf px fin p show ?thesis
      using mirror_coord_twice [of "boundary1 ! 2" y]
      by (simp add: reflectBoxMirror_def reflectBoxFace_def less_Suc_eq numeral_3_eq_3)
  next
    case 4
    with bf px fin p show ?thesis
      using mirror_coord_twice [of "boundary1 ! 3" y]
      by (simp add: reflectBoxMirror_def reflectBoxFace_def less_Suc_eq numeral_3_eq_3)
  next
    case 5
    with bf px fin p show ?thesis
      using mirror_coord_twice [of "boundary1 ! 4" z]
      by (simp add: reflectBoxMirror_def reflectBoxFace_def less_Suc_eq numeral_3_eq_3)
  next
    case 6
    with bf px fin p show ?thesis
      using mirror_coord_twice [of "boundary1 ! 5" z]
      by (simp add: reflectBoxMirror_def reflectBoxFace_def less_Suc_eq numeral_3_eq_3)
  qed
qed

text \<open>The theorem at the face x = 1 of the unit box and the point whose x is the double
  nearest 0.3.\<close>

theorem reflect_box_twice_rounding_witness:
  "isFiniteDouble (B 1 0) \<and> isFiniteDouble (B 5404319552844595 (- 54))
   \<and> snd (reflectBoxMirror [B 0 0, B 1 0, B 0 0, B 1 0, B 0 0, B 1 0] 1
        (snd (reflectBoxMirror [B 0 0, B 1 0, B 0 0, B 1 0, B 0 0, B 1 0] 1
               [B 5404319552844595 (- 54), B 0 0, B 0 0])))
       = [B 1351079888211149 (- 52), B 0 0, B 0 0]
   \<and> \<bar>val64 (B 1351079888211149 (- 52)) - val64 (B 5404319552844595 (- 54))\<bar>
       \<le> (1 / 2 ^ 53) * \<bar>val64 (B 5404319552844595 (- 54))\<bar>
         + (1 / 2 ^ 53) * (1 + 1 / 2 ^ 53)
           * \<bar>2 * val64 (B 1 0) - val64 (B 5404319552844595 (- 54))\<bar>"
proof -
  let ?box = "[B 0 0, B 1 0, B 0 0, B 1 0, B 0 0, B 1 0]"
  let ?p = "[B 5404319552844595 (- 54), B 0 0, B 0 0]"
  have a: "reflectBoxMirror ?box 1 ?p = (True, [B 7656119366529843 (- 52), B 0 0, B 0 0])"
    by code_simp
  have b: "reflectBoxMirror ?box 1 [B 7656119366529843 (- 52), B 0 0, B 0 0]
             = (True, [B 1351079888211149 (- 52), B 0 0, B 0 0])"
    by code_simp
  have h1: "isFiniteDouble (B 1 0)" by code_simp
  have h2: "isFiniteDouble (B 5404319552844595 (- 54))" by code_simp
  from reflect_box_twice_rounding [of 1 ?p ?box] a b h1 h2 show ?thesis by simp
qed

subsection \<open>The reaction compiler\<close>

lemmas chem_defs = initializeRegionChemRxn_def initRegion_def regionRxnIDs_def bRxnInRegion_def
  rxnOrderRate_def initReactant_def scanReactant_def scanStep_def cumStep_def bindE_def
  isINFINITY_def dsub_def infBySign_def Let_def

lemma upt_0_2: "[0..<2] = [0, 1]"
  by (simp add: numeral_2_eq_2)

lemma upt_0_3: "[0..<3] = [0, 1, 2]"
  by (simp add: numeral_3_eq_3)

text \<open>
  C4. The claim: if n >= 1 first-order reactions of a molecule type have infinite rate, each
  gets the relative rate 1/n and the increment 1/n, so that together they receive the whole
  unit mass. The source computes \<open>1/numInfRxn\<close> on integers, which is 0 for n >= 2. In a
  normal region with the two reactions A -> B and A -> C, both of infinite rate, the table
  of A is built over both reactions, each gets the relative rate 0, and both cumulative
  entries are 0, while the probability of no reaction is 0.
\<close>

theorem two_infinite_rates_get_no_mass:
  "map_sum id (map (\<lambda>out. (firstRxnID out ! 0, uniSumRate out ! 0,
        (uniRelativeRate out ! 0) 0, (uniRelativeRate out ! 0) 1,
        (uniCumProb out ! 0) 0, (uniCumProb out ! 0) 1, minRxnTimeRV out ! 0)))
     (initializeRegionChemRxn [(exNormalRegion, [Fin 1, Fin 1, Fin 1])] 3 2
        [exRxn [1, 0, 0] [0, 1, 0] PInf False RXN_NORMAL,
         exRxn [1, 0, 0] [0, 0, 1] PInf False RXN_NORMAL])
   = Inr [([0, 1], PInf, Some (Fin 0), Some (Fin 0), Some (Fin 0), Some (Fin 0), Fin 0)]"
  by (simp add: chem_defs exNormalRegion_def exRxn_def upt_0_2 upt_0_3 plane_defs)

text \<open>
  C6. The claim: if a molecule type has more than one first-order reaction in a region and
  one of them is not a Normal reaction, initializeRegionChemRxn exits with an error. The scan
  that counts the reactions of a molecule type reads \<open>chem_rxn[k]\<close> with the region-local
  index \<open>k\<close>, where the loops before it read \<open>chem_rxn[rxnInRegionID[k][i]]\<close>. Take a
  normal region and a surface region, and the reactions 0: B -> nothing (not a surface
  reaction), 1: A -> B (surface, Absorbing) and 2: A -> C (surface, Normal). The surface
  region admits reactions 1 and 2, both first-order reactions of A, and the function
  returns without exit: in the surface region it has found one reaction for A and one
  for B.
\<close>

theorem exclusive_violation_not_detected:
  "map_sum id (map (\<lambda>out. (rxnInRegionID out, rxnOrder out, firstRxnID out)))
     (initializeRegionChemRxn
        [(exNormalRegion, [Fin 1, Fin 1, Fin 1]), (exSurfaceRegion, [Fin 1, Fin 1, Fin 1])] 3 3
        [exRxn [0, 1, 0] [0, 0, 0] (Fin 1) False RXN_NORMAL,
         exRxn [1, 0, 0] [0, 1, 0] (Fin 1) True RXN_ABSORBING,
         exRxn [1, 0, 0] [0, 0, 1] (Fin 1) True RXN_NORMAL])
   = Inr [([0], [1], [[], [0], []]), ([1, 2], [1, 1], [[1], [0], []])]"
  by (simp add: chem_defs exNormalRegion_def exSurfaceRegion_def exRxn_def upt_0_2 upt_0_3
      plane_defs PI_def)

text \<open>
  C7, as claimed: every finite-rate entry of the table is the previous entry plus
  (r_k / \<Sigma>r) * (1 - exp (- dt * \<Sigma>r)). An Absorbing reaction is compiled differently: in a
  surface region with the single reaction A -> nothing, Absorbing, k = 1, dt = 1 and
  diffusion coefficient \<pi>, the compiled rate is 1 * sqrt (\<pi> * 1 / \<pi>) = 1, the sum of rates
  is 1, and the entry is the rate, 1, not 0 + (1 / 1) * (1 - exp (- 1)).
\<close>

theorem absorbing_entry_is_rate:
  "map_sum id (map (\<lambda>out. (firstRxnID out ! 0, rxnRate out, uniSumRate out ! 0,
        (uniCumProb out ! 0) 0)))
     (initializeRegionChemRxn [(exSurfaceRegion, [Fin PI])] 1 1
        [exRxn [1] [0] (Fin 1) True RXN_ABSORBING])
   = Inr [([0], [Fin 1], Fin 1, Some (Fin 1))]
   \<and> Fin 1 \<noteq> dadd (Fin 0) (cumIncrement (Fin 1) (Fin 1) (Fin 1))
   \<and> (1::real) \<noteq> 0 + (1 / 1) * (1 - exp (- (1 * 1)))"
  by (simp add: chem_defs cumIncrement_def exSurfaceRegion_def exRxn_def plane_defs PI_def)

text \<open>Sequencing with exits, and the two loops over the reactions of a molecule type.\<close>

lemma mapE_Cons_Inr:
  "mapE f (x # xs) = Inr ys \<longleftrightarrow> (\<exists>y zs. f x = Inr y \<and> mapE f xs = Inr zs \<and> ys = y # zs)"
  by (auto simp: bindE_def split: sum.splits)

lemma mapE_Inr_nth:
  "mapE f xs = Inr ys \<Longrightarrow> length ys = length xs \<and> (\<forall>i < length xs. f (xs ! i) = Inr (ys ! i))"
proof (induction xs arbitrary: ys)
  case Nil
  then show ?case by simp
next
  case (Cons x xs)
  from Cons.prems obtain y zs where y: "f x = Inr y" and zs: "mapE f xs = Inr zs"
    and ys: "ys = y # zs"
    unfolding mapE_Cons_Inr by blast
  from Cons.IH [OF zs] y ys show ?case
    by (auto simp: nth_Cons split: nat.splits)
qed

lemma foldE_append: "foldE f (xs @ ys) s = bindE (foldE f xs s) (foldE f ys)"
  by (induction xs arbitrary: s) (auto simp: bindE_def split: sum.splits)

lemma scan_fold:
  "fold (scanStep chem_rxn order rate j) xs (ids, s, n, ex) =
     (ids @ filter (isFirstOrderOf chem_rxn order j) xs,
      foldl dadd s (map (\<lambda>k. rate ! k) (filter (isFirstOrderOf chem_rxn order j) xs)),
      n + length (filter (\<lambda>k. isINFINITY (rate ! k)) (filter (isFirstOrderOf chem_rxn order j) xs)),
      ex \<or> (\<exists>k \<in> set (filter (isFirstOrderOf chem_rxn order j) xs).
               surfRxnType (chem_rxn ! k) \<noteq> RXN_NORMAL))"
  by (induction xs arbitrary: ids s n ex) (auto simp: scanStep_def isFirstOrderOf_def)

lemma cumStep_Inr:
  assumes "cumStep chem_rxn rate dt ids S ninf k (cum1, rel1) = Inr (cum, rel)"
  shows "(surfRxnType (chem_rxn ! (ids ! k)) = RXN_ABSORBING \<and> cum = cum1(0 \<mapsto> rate ! (ids ! k)))
       \<or> (normalLike (surfRxnType (chem_rxn ! (ids ! k)))
          \<and> (\<exists>start. (if k > 0 then cum1 (k - 1) else cum1 k) = Some start
               \<and> cum = cum1(k \<mapsto> dadd start
                    (if isINFINITY (rate ! (ids ! k)) then Fin (real_of_int (1 div int ninf))
                     else cumIncrement dt S (rate ! (ids ! k))))))"
  using assms
  by (auto simp: cumStep_def normalLike_def cumIncrement_def bindE_def Let_def
      split: rxn_type.splits option.splits if_splits)

lemma cum_loop:
  assumes "foldE (cumStep chem_rxn rate dt ids S ninf) [0..<n] (cum0, rel0) = Inr (cum, rel)"
    and "\<forall>k. 0 < k \<and> k < n \<longrightarrow> surfRxnType (chem_rxn ! (ids ! k)) \<noteq> RXN_ABSORBING"
    and "cum0 0 = Some (Fin 0)"
  shows "(\<forall>k < n. cumEntryOK chem_rxn rate dt ids S cum k) \<and> (n = 0 \<longrightarrow> cum = cum0)"
  using assms
proof (induction n arbitrary: cum rel)
  case 0
  then show ?case by simp
next
  case (Suc n)
  from Suc.prems(1) obtain cum1 rel1 where
    f1: "foldE (cumStep chem_rxn rate dt ids S ninf) [0..<n] (cum0, rel0) = Inr (cum1, rel1)"
    and st: "cumStep chem_rxn rate dt ids S ninf n (cum1, rel1) = Inr (cum, rel)"
    by (auto simp: foldE_append bindE_def split: sum.splits)
  from Suc.prems(2)
  have "\<forall>k. 0 < k \<and> k < n \<longrightarrow> surfRxnType (chem_rxn ! (ids ! k)) \<noteq> RXN_ABSORBING"
    by simp
  from Suc.IH [OF f1 this Suc.prems(3)]
  have ih: "\<forall>k < n. cumEntryOK chem_rxn rate dt ids S cum1 k" and z: "n = 0 \<longrightarrow> cum1 = cum0"
    by simp_all
  from cumStep_Inr [OF st] show ?case
  proof
    assume a: "surfRxnType (chem_rxn ! (ids ! n)) = RXN_ABSORBING
               \<and> cum = cum1(0 \<mapsto> rate ! (ids ! n))"
    with Suc.prems(2) have n0: "n = 0" by (metis lessI not_gr_zero)
    with a show ?thesis by (simp add: cumEntryOK_def normalLike_def)
  next
    assume b: "normalLike (surfRxnType (chem_rxn ! (ids ! n)))
          \<and> (\<exists>start. (if n > 0 then cum1 (n - 1) else cum1 n) = Some start
               \<and> cum = cum1(n \<mapsto> dadd start
                    (if isINFINITY (rate ! (ids ! n)) then Fin (real_of_int (1 div int ninf))
                     else cumIncrement dt S (rate ! (ids ! n)))))"
    then obtain start where s: "(if n > 0 then cum1 (n - 1) else cum1 n) = Some start"
      and c: "cum = cum1(n \<mapsto> dadd start
                    (if isINFINITY (rate ! (ids ! n)) then Fin (real_of_int (1 div int ninf))
                     else cumIncrement dt S (rate ! (ids ! n))))"
      and nl: "normalLike (surfRxnType (chem_rxn ! (ids ! n)))"
      by blast
    have new: "cumEntryOK chem_rxn rate dt ids S cum n"
    proof (cases "n = 0")
      case True
      with z s Suc.prems(3) have "start = Fin 0" by simp
      with True c nl show ?thesis by (auto simp: cumEntryOK_def normalLike_def)
    next
      case False
      with s c nl show ?thesis by (auto simp: cumEntryOK_def normalLike_def)
    qed
    have old: "cumEntryOK chem_rxn rate dt ids S cum k" if "k < n" for k
    proof -
      from ih that have okk: "cumEntryOK chem_rxn rate dt ids S cum1 k" by simp
      have "k \<noteq> n" using that by arith
      then have e1: "cum k = cum1 k" unfolding c by (simp only: fun_upd_apply if_False)
      have "k - 1 \<noteq> n" "0 \<noteq> n" using that by arith+
      then have e2: "cum (k - 1) = cum1 (k - 1)" and e3: "cum 0 = cum1 0"
        unfolding c by (simp_all only: fun_upd_apply if_False)
      from okk show ?thesis
        unfolding cumEntryOK_def e1 e2 e3 .
    qed
    from new old show ?thesis by (auto simp: less_Suc_eq)
  qed
qed

lemma rxnOrderRate_Inr:
  assumes "rxnOrderRate r N D j c = Inr (ord, rt)"
  shows "ord = (\<Sum>m \<leftarrow> [0..<N]. reactants c ! m) mod 2 ^ 32
       \<and> (ord = 1 \<longrightarrow>
            (if surfRxnType c = RXN_ABSORBING
             then j < length D
                  \<and> rt = dmul (rate_k c) (dsqrt (ddiv (dmul (Fin PI) (spec_dt r)) (D ! j)))
             else rt = rate_k c))"
proof -
  define S where "S = (\<Sum>m \<leftarrow> [0..<N]. reactants c ! m) mod 2 ^ 32"
  have "ord = S
       \<and> (ord = 1 \<longrightarrow>
            (if surfRxnType c = RXN_ABSORBING
             then j < length D
                  \<and> rt = dmul (rate_k c) (dsqrt (ddiv (dmul (Fin PI) (spec_dt r)) (D ! j)))
             else rt = rate_k c))"
    using assms unfolding rxnOrderRate_def Let_def S_def [symmetric]
    by (auto split: if_splits rxn_type.splits)
  then show ?thesis unfolding S_def .
qed

lemma initReactant_Inr:
  assumes "initReactant chem_rxn r order rate n j = Inr (ids, S, cum, rel, m)"
  shows "ids = filter (isFirstOrderOf chem_rxn order j) [0..<n]
       \<and> S = foldl dadd (Fin 0) (map (\<lambda>k. rate ! k) ids)
       \<and> m = dexp (dmul (dneg (spec_dt r)) S)
       \<and> (\<forall>k < length ids. cumEntryOK chem_rxn rate (spec_dt r) ids S cum k)"
proof -
  let ?P = "isFirstOrderOf chem_rxn order j"
  let ?ids = "filter ?P [0..<n]"
  let ?S = "foldl dadd (Fin 0) (map (\<lambda>k. rate ! k) ?ids)"
  let ?ex = "\<exists>k \<in> set ?ids. surfRxnType (chem_rxn ! k) \<noteq> RXN_NORMAL"
  obtain ninf where sc: "scanReactant chem_rxn order rate n j = (?ids, ?S, ninf, ?ex)"
    by (simp add: scanReactant_def scan_fold)
  from assms sc have noexit: "\<not> (?ex \<and> length ?ids > 1)"
    by (auto simp: initReactant_def split: if_splits)
  from assms sc noexit have
    fe: "foldE (cumStep chem_rxn rate (spec_dt r) ?ids ?S ninf) [0..<length ?ids]
            (Map.empty(0 \<mapsto> Fin 0), Map.empty) = Inr (cum, rel)"
    and eqs: "ids = ?ids" "S = ?S" "m = dexp (dmul (dneg (spec_dt r)) ?S)"
    by (auto simp: initReactant_def bindE_def split: if_splits sum.splits)
  have noabs: "\<forall>k. 0 < k \<and> k < length ?ids
                 \<longrightarrow> surfRxnType (chem_rxn ! (?ids ! k)) \<noteq> RXN_ABSORBING"
  proof (intro allI impI)
    fix k assume k: "0 < k \<and> k < length ?ids"
    then have "length ?ids > 1" by arith
    with noexit have "\<forall>x \<in> set ?ids. surfRxnType (chem_rxn ! x) = RXN_NORMAL" by blast
    moreover from k have "?ids ! k \<in> set ?ids" by (meson nth_mem)
    ultimately show "surfRxnType (chem_rxn ! (?ids ! k)) \<noteq> RXN_ABSORBING" by simp
  qed
  from cum_loop [OF fe noabs]
  have "\<forall>k < length ?ids. cumEntryOK chem_rxn rate (spec_dt r) ?ids ?S cum k"
    by simp
  with eqs show ?thesis by simp
qed

lemma sole_reactant:
  assumes s: "(\<Sum>m \<leftarrow> [0..<N]. xs ! m) = (1::nat)" and j: "j < N" and pos: "xs ! j > 0"
  shows "xs ! j = 1 \<and> (\<forall>m < N. m \<noteq> j \<longrightarrow> xs ! m = 0)"
proof -
  have "(\<Sum>m \<leftarrow> [0..<N]. xs ! m) = (\<Sum>m \<in> {0..<N}. xs ! m)"
    by (simp add: interv_sum_list_conv_sum_set_nat)
  also have "\<dots> = xs ! j + (\<Sum>m \<in> {0..<N} - {j}. xs ! m)"
    using j by (intro sum.remove) simp_all
  finally have e: "xs ! j + (\<Sum>m \<in> {0..<N} - {j}. xs ! m) = 1" using s by simp
  with pos have one: "xs ! j = 1" and rest: "(\<Sum>m \<in> {0..<N} - {j}. xs ! m) = 0" by arith+
  from rest have "\<forall>m \<in> {0..<N} - {j}. xs ! m = 0" by simp
  with one show ?thesis by auto
qed

text \<open>
  C7, amended. Take a region that initializeRegionChemRxn initialises without exit and
  whose admitted reactions are the first n reactions of the global array, n > 0 (so that
  the index of a reaction in the region is its index in the array). Then, for every
  molecule type j: the order of each reaction is the number of its reactant molecules
  modulo 2^32; the table of j is built over exactly the reactions k < n of order 1 that
  have j as reactant, and j is the sole reactant of each, with one molecule, when its
  reactant count is below 2^32; the compiled rate r_k of each is its rate constant, or
  rate constant * sqrt (\<pi> * dt / D_j) for an Absorbing reaction, stated when the
  coefficient the code reads, at the index of the reaction, equals the coefficient D_j of
  j; \<Sigma>r is the sum of the compiled rates; every finite-rate entry of type Normal, Receptor
  or Membrane is the previous entry (0 before the first) plus
  (r_k / \<Sigma>r) * (1 - exp (- dt * \<Sigma>r)), and an Absorbing entry holds the compiled rate in
  slot 0; and minRxnTimeRV[j] = exp (- dt * \<Sigma>r).
\<close>

theorem compiled_table:
  assumes run: "initializeRegionChemRxn regionArray NUM_MOL_TYPES MAX_RXNS chem_rxn = Inr outs"
    and i: "i < length regionArray"
    and reg: "regionArray ! i = (r, DIFF_COEF_i)"
    and row: "length DIFF_COEF_i = NUM_MOL_TYPES"
    and admit: "regionRxnIDs MAX_RXNS chem_rxn r = [0..<n]"
    and n: "0 < n"
    and j: "j < NUM_MOL_TYPES"
  shows "(\<forall>k < n. rxnOrder (outs ! i) ! k
                    = (\<Sum>m \<leftarrow> [0..<NUM_MOL_TYPES]. reactants (chem_rxn ! k) ! m) mod 2 ^ 32)
       \<and> firstRxnID (outs ! i) ! j
           = filter (isFirstOrderOf chem_rxn (rxnOrder (outs ! i)) j) [0..<n]
       \<and> (\<forall>k \<in> set (firstRxnID (outs ! i) ! j).
             (\<Sum>m \<leftarrow> [0..<NUM_MOL_TYPES]. reactants (chem_rxn ! k) ! m) < 2 ^ 32 \<longrightarrow>
               reactants (chem_rxn ! k) ! j = 1
               \<and> (\<forall>m < NUM_MOL_TYPES. m \<noteq> j \<longrightarrow> reactants (chem_rxn ! k) ! m = 0))
       \<and> (\<forall>k \<in> set (firstRxnID (outs ! i) ! j).
             surfRxnType (chem_rxn ! k) \<noteq> RXN_ABSORBING \<or> DIFF_COEF_i ! k = DIFF_COEF_i ! j \<longrightarrow>
               rxnRate (outs ! i) ! k
                 = firstOrderRate_spec (chem_rxn ! k) (spec_dt r) (DIFF_COEF_i ! j))
       \<and> uniSumRate (outs ! i) ! j
           = foldl dadd (Fin 0) (map (\<lambda>k. rxnRate (outs ! i) ! k) (firstRxnID (outs ! i) ! j))
       \<and> (\<forall>k < length (firstRxnID (outs ! i) ! j).
             cumEntryOK chem_rxn (rxnRate (outs ! i)) (spec_dt r) (firstRxnID (outs ! i) ! j)
               (uniSumRate (outs ! i) ! j) (uniCumProb (outs ! i) ! j) k)
       \<and> minRxnTimeRV (outs ! i) ! j = dexp (dmul (dneg (spec_dt r)) (uniSumRate (outs ! i) ! j))"
proof -
  from mapE_Inr_nth [OF run [unfolded initializeRegionChemRxn_def]] i reg
  have one: "initRegion NUM_MOL_TYPES MAX_RXNS chem_rxn (r, DIFF_COEF_i) = Inr (outs ! i)"
    by auto
  from one admit n obtain ors ts where
    ors: "mapE (\<lambda>j. rxnOrderRate r NUM_MOL_TYPES DIFF_COEF_i j (chem_rxn ! ([0..<n] ! j))) [0..<n]
            = Inr ors"
    and ts: "mapE (initReactant chem_rxn r (map fst ors) (map snd ors) n) [0..<NUM_MOL_TYPES]
            = Inr ts"
    and out: "outs ! i = \<lparr>rxnInRegionID = [0..<n], rxnOrder = map fst ors, rxnRate = map snd ors,
                 firstRxnID = map (\<lambda>(i, s, c, u, m). i) ts,
                 uniSumRate = map (\<lambda>(i, s, c, u, m). s) ts,
                 uniCumProb = map (\<lambda>(i, s, c, u, m). c) ts,
                 uniRelativeRate = map (\<lambda>(i, s, c, u, m). u) ts,
                 minRxnTimeRV = map (\<lambda>(i, s, c, u, m). m) ts\<rparr>"
    by (auto simp: initRegion_def Let_def bindE_def split: sum.splits)
  from mapE_Inr_nth [OF ors] have lo: "length ors = n"
    and ork: "\<forall>k < n. rxnOrderRate r NUM_MOL_TYPES DIFF_COEF_i k (chem_rxn ! k) = Inr (ors ! k)"
    by auto
  have both: "map fst ors ! k
                = (\<Sum>m \<leftarrow> [0..<NUM_MOL_TYPES]. reactants (chem_rxn ! k) ! m) mod 2 ^ 32
            \<and> (map fst ors ! k = 1 \<longrightarrow>
                 (if surfRxnType (chem_rxn ! k) = RXN_ABSORBING
                  then k < length DIFF_COEF_i
                       \<and> map snd ors ! k
                           = dmul (rate_k (chem_rxn ! k))
                               (dsqrt (ddiv (dmul (Fin PI) (spec_dt r)) (DIFF_COEF_i ! k)))
                  else map snd ors ! k = rate_k (chem_rxn ! k)))"
    if k: "k < n" for k
  proof -
    from k ork have "rxnOrderRate r NUM_MOL_TYPES DIFF_COEF_i k (chem_rxn ! k)
                     = Inr (fst (ors ! k), snd (ors ! k))"
      by simp
    from rxnOrderRate_Inr [OF this] k lo show ?thesis by simp
  qed
  then have ord: "\<forall>k < n. map fst ors ! k
                    = (\<Sum>m \<leftarrow> [0..<NUM_MOL_TYPES]. reactants (chem_rxn ! k) ! m) mod 2 ^ 32"
    by blast
  from mapE_Inr_nth [OF ts] j have lt: "length ts = NUM_MOL_TYPES"
    and tj: "initReactant chem_rxn r (map fst ors) (map snd ors) n j = Inr (ts ! j)"
    by auto
  obtain ids S cum rel m where t: "ts ! j = (ids, S, cum, rel, m)"
    by (cases "ts ! j") auto
  from out lt j t have f1: "firstRxnID (outs ! i) ! j = ids"
    and f2: "uniSumRate (outs ! i) ! j = S"
    and f3: "uniCumProb (outs ! i) ! j = cum"
    and f4: "minRxnTimeRV (outs ! i) ! j = m"
    and f5: "rxnOrder (outs ! i) = map fst ors"
    and f6: "rxnRate (outs ! i) = map snd ors"
    by simp_all
  from initReactant_Inr [OF tj [unfolded t]]
  have a: "ids = filter (isFirstOrderOf chem_rxn (map fst ors) j) [0..<n]"
    and b: "S = foldl dadd (Fin 0) (map (\<lambda>k. map snd ors ! k) ids)"
    and c: "m = dexp (dmul (dneg (spec_dt r)) S)"
    and d: "\<forall>k < length ids. cumEntryOK chem_rxn (map snd ors) (spec_dt r) ids S cum k"
    by blast+
  have mem: "k < n \<and> map fst ors ! k = 1 \<and> reactants (chem_rxn ! k) ! j > 0"
    if "k \<in> set ids" for k
    using that unfolding a by (simp add: isFirstOrderOf_def)
  have sole: "\<forall>k \<in> set ids.
       (\<Sum>m \<leftarrow> [0..<NUM_MOL_TYPES]. reactants (chem_rxn ! k) ! m) < 2 ^ 32 \<longrightarrow>
         reactants (chem_rxn ! k) ! j = 1
         \<and> (\<forall>m < NUM_MOL_TYPES. m \<noteq> j \<longrightarrow> reactants (chem_rxn ! k) ! m = 0)"
  proof (intro ballI impI)
    fix k assume k: "k \<in> set ids"
      and small: "(\<Sum>m \<leftarrow> [0..<NUM_MOL_TYPES]. reactants (chem_rxn ! k) ! m) < 2 ^ 32"
    from mem [OF k] both [of k] small
    have "(\<Sum>m \<leftarrow> [0..<NUM_MOL_TYPES]. reactants (chem_rxn ! k) ! m) = 1" by simp
    from sole_reactant [OF this j] mem [OF k]
    show "reactants (chem_rxn ! k) ! j = 1
          \<and> (\<forall>m < NUM_MOL_TYPES. m \<noteq> j \<longrightarrow> reactants (chem_rxn ! k) ! m = 0)"
      by simp
  qed
  have rates: "\<forall>k \<in> set ids.
       surfRxnType (chem_rxn ! k) \<noteq> RXN_ABSORBING \<or> DIFF_COEF_i ! k = DIFF_COEF_i ! j \<longrightarrow>
         map snd ors ! k = firstOrderRate_spec (chem_rxn ! k) (spec_dt r) (DIFF_COEF_i ! j)"
  proof (intro ballI impI)
    fix k assume k: "k \<in> set ids"
      and h: "surfRxnType (chem_rxn ! k) \<noteq> RXN_ABSORBING \<or> DIFF_COEF_i ! k = DIFF_COEF_i ! j"
    from mem [OF k] both [of k]
    have "if surfRxnType (chem_rxn ! k) = RXN_ABSORBING
          then k < length DIFF_COEF_i
               \<and> map snd ors ! k
                   = dmul (rate_k (chem_rxn ! k))
                       (dsqrt (ddiv (dmul (Fin PI) (spec_dt r)) (DIFF_COEF_i ! k)))
          else map snd ors ! k = rate_k (chem_rxn ! k)"
      by simp
    with h show "map snd ors ! k
                   = firstOrderRate_spec (chem_rxn ! k) (spec_dt r) (DIFF_COEF_i ! j)"
      by (auto simp: firstOrderRate_spec_def split: if_splits)
  qed
  from ord a sole rates b c d show ?thesis
    unfolding f1 f2 f3 f4 f5 f6 by (intro conjI) assumption+
qed

text \<open>The theorem at a normal region with the reactions A -> B of rate 1 and A -> C of rate
  3 and time step 1: \<Sigma>r = 4, the entries are (1/4) * (1 - exp (-4)) and that plus
  (3/4) * (1 - exp (-4)), and the probability of no reaction is exp (-4); and at a surface
  region with one Absorbing reaction of rate constant 1, time step 1 and diffusion
  coefficient \<pi>: the compiled rate and the entry are 1.\<close>

theorem compiled_table_witness:
  "initializeRegionChemRxn [(exNormalRegion, [Fin 1, Fin 1, Fin 1])] 3 2
      [exRxn [1, 0, 0] [0, 1, 0] (Fin 1) False RXN_NORMAL,
       exRxn [1, 0, 0] [0, 0, 1] (Fin 3) False RXN_NORMAL]
     = Inr [\<lparr>rxnInRegionID = [0, 1], rxnOrder = [1, 1], rxnRate = [Fin 1, Fin 3],
             firstRxnID = [[0, 1], [], []], uniSumRate = [Fin 4, Fin 0, Fin 0],
             uniCumProb = [[0 \<mapsto> Fin (1 / 4 * (1 - exp (- 4))),
                            1 \<mapsto> Fin (1 / 4 * (1 - exp (- 4)) + 3 / 4 * (1 - exp (- 4)))],
                           [0 \<mapsto> Fin 0], [0 \<mapsto> Fin 0]],
             uniRelativeRate = [[0 \<mapsto> Fin (1 / 4), 1 \<mapsto> Fin (3 / 4)], Map.empty, Map.empty],
             minRxnTimeRV = [Fin (exp (- 4)), Fin 1, Fin 1]\<rparr>]
   \<and> regionRxnIDs 2 [exRxn [1, 0, 0] [0, 1, 0] (Fin 1) False RXN_NORMAL,
                      exRxn [1, 0, 0] [0, 0, 1] (Fin 3) False RXN_NORMAL] exNormalRegion = [0..<2]
   \<and> cumEntryOK [exRxn [1, 0, 0] [0, 1, 0] (Fin 1) False RXN_NORMAL,
                  exRxn [1, 0, 0] [0, 0, 1] (Fin 3) False RXN_NORMAL]
        [Fin 1, Fin 3] (Fin 1) [0, 1] (Fin 4)
        [0 \<mapsto> Fin (1 / 4 * (1 - exp (- 4))),
         1 \<mapsto> Fin (1 / 4 * (1 - exp (- 4)) + 3 / 4 * (1 - exp (- 4)))] 1
   \<and> initializeRegionChemRxn [(exSurfaceRegion, [Fin PI])] 1 1
        [exRxn [1] [0] (Fin 1) True RXN_ABSORBING]
     = Inr [\<lparr>rxnInRegionID = [0], rxnOrder = [1], rxnRate = [Fin 1],
             firstRxnID = [[0]], uniSumRate = [Fin 1],
             uniCumProb = [[0 \<mapsto> Fin 1]], uniRelativeRate = [[0 \<mapsto> Fin 1]],
             minRxnTimeRV = [Fin (exp (- 1))]\<rparr>]
   \<and> firstOrderRate_spec (exRxn [1] [0] (Fin 1) True RXN_ABSORBING) (Fin 1) (Fin PI) = Fin 1"
proof -
  let ?rx = "[exRxn [1, 0, 0] [0, 1, 0] (Fin 1) False RXN_NORMAL,
              exRxn [1, 0, 0] [0, 0, 1] (Fin 3) False RXN_NORMAL]"
  let ?out = "\<lparr>rxnInRegionID = [0, 1], rxnOrder = [1, 1], rxnRate = [Fin 1, Fin 3],
      firstRxnID = [[0, 1], [], []], uniSumRate = [Fin 4, Fin 0, Fin 0],
      uniCumProb = [[0 \<mapsto> Fin (1 / 4 * (1 - exp (- 4))),
                     1 \<mapsto> Fin (1 / 4 * (1 - exp (- 4)) + 3 / 4 * (1 - exp (- 4)))],
                    [0 \<mapsto> Fin 0], [0 \<mapsto> Fin 0]],
      uniRelativeRate = [[0 \<mapsto> Fin (1 / 4), 1 \<mapsto> Fin (3 / 4)], Map.empty, Map.empty],
      minRxnTimeRV = [Fin (exp (- 4)), Fin 1, Fin 1]\<rparr>"
  let ?ra = "[exRxn [1] [0] (Fin 1) True RXN_ABSORBING]"
  let ?outa = "\<lparr>rxnInRegionID = [0], rxnOrder = [1], rxnRate = [Fin 1],
      firstRxnID = [[0]], uniSumRate = [Fin 1],
      uniCumProb = [[0 \<mapsto> Fin 1]], uniRelativeRate = [[0 \<mapsto> Fin 1]],
      minRxnTimeRV = [Fin (exp (- 1))]\<rparr>"
  have run: "initializeRegionChemRxn [(exNormalRegion, [Fin 1, Fin 1, Fin 1])] 3 2 ?rx = Inr [?out]"
    by (simp add: chem_defs exNormalRegion_def exRxn_def upt_0_2 upt_0_3 plane_defs)
  have admit: "regionRxnIDs 2 ?rx exNormalRegion = [0..<2]"
    by (simp add: chem_defs exNormalRegion_def exRxn_def upt_0_2)
  have runa: "initializeRegionChemRxn [(exSurfaceRegion, [Fin PI])] 1 1 ?ra = Inr [?outa]"
    by (simp add: chem_defs exSurfaceRegion_def exRxn_def plane_defs PI_def)
  have admita: "regionRxnIDs 1 ?ra exSurfaceRegion = [0..<1]"
    by (simp add: chem_defs exSurfaceRegion_def exRxn_def)
  from compiled_table [OF run _ _ _ admit, of 0 "[Fin 1, Fin 1, Fin 1]" 0]
    compiled_table [OF runa _ _ _ admita, of 0 "[Fin PI]" 0]
    run admit runa
  show ?thesis by (simp add: exNormalRegion_def exSurfaceRegion_def)
qed

text \<open>On finite doubles with a non-zero sum of rates, the increment is the real number of
  the formula.\<close>

lemma cumIncrement_finite:
  "S \<noteq> 0 \<Longrightarrow>
   cumIncrement (Fin dt) (Fin S) (Fin rk) = Fin (rk / S * (1 - exp (- (dt * S))))"
  by (simp add: cumIncrement_def dsub_def)

subsection \<open>The region loader\<close>

lemma loadRegion_round:
  assumes "region_shape (loadRegion obj) = CYLINDER \<or> region_shape (loadRegion obj) = SPHERE"
  shows "bMicro (loadRegion obj)
       \<and> (itemValid obj ''Is Region Microscopic?'' cJSON_True
            \<longrightarrow> MicroscopicNotNeeded \<in> set (warnings (loadRegion obj)))"
  using assms by (auto simp: loadRegion_def Let_def split: if_splits)

lemma loadRegions_nth:
  "loadRegions n items = Inr regs \<Longrightarrow>
     length regs = length items
     \<and> (\<forall>i < length items. \<exists>obj. items ! i = Some obj \<and> regs ! i = loadRegion obj)"
proof (induction n items arbitrary: regs rule: loadRegions.induct)
  case (1 n)
  then show ?case by simp
next
  case (2 n rest)
  then show ?case by simp
next
  case (3 n curObj rest)
  from "3.prems" obtain regs' where r: "loadRegions (Suc n) rest = Inr regs'"
    and e: "regs = loadRegion curObj # regs'"
    by (auto split: sum.splits)
  from "3.IH" [OF r] e show ?case
    by (auto simp: nth_Cons split: nat.splits)
qed

text \<open>
  C9. When the loop of loadConfig over the regions completes, every region whose shape is
  Cylinder or Sphere has bMicro set, whatever the configuration holds under
  "Is Region Microscopic?"; and when the configuration holds a valid value there, the
  warning that it is not needed has been printed for the region.
\<close>

theorem round_regions_microscopic:
  assumes "loadRegions 0 items = Inr regs"
    and "i < length regs"
    and "region_shape (regs ! i) = CYLINDER \<or> region_shape (regs ! i) = SPHERE"
  shows "bMicro (regs ! i)
       \<and> (\<exists>obj. items ! i = Some obj
            \<and> (itemValid obj ''Is Region Microscopic?'' cJSON_True
                 \<longrightarrow> MicroscopicNotNeeded \<in> set (warnings (regs ! i))))"
proof -
  from loadRegions_nth [OF assms(1)] assms(2)
  obtain obj where o: "items ! i = Some obj" and r: "regs ! i = loadRegion obj"
    by auto
  from loadRegion_round [of obj] assms(3) r o show ?thesis by simp
qed

text \<open>The theorem at a cylinder whose configuration says "Is Region Microscopic?": false.\<close>

theorem round_regions_microscopic_witness:
  "loadRegions 0 [Some \<lparr>itemValid = (\<lambda>name ty. True), valuestring = (\<lambda>name. ''Cylinder''),
                         valueint = (\<lambda>name. 0)\<rparr>]
     = Inr [\<lparr>region_shape = CYLINDER, bMicro = True, warnings = [MicroscopicNotNeeded]\<rparr>]
   \<and> bMicro (\<lparr>region_shape = CYLINDER, bMicro = True, warnings = [MicroscopicNotNeeded]\<rparr>)"
proof -
  let ?obj = "\<lparr>itemValid = (\<lambda>name ty. True), valuestring = (\<lambda>name. ''Cylinder''),
                valueint = (\<lambda>name. 0)\<rparr>"
  let ?reg = "\<lparr>region_shape = CYLINDER, bMicro = True, warnings = [MicroscopicNotNeeded]\<rparr>"
  have run: "loadRegions 0 [Some ?obj] = Inr [?reg]"
    by (simp add: loadRegion_def)
  from round_regions_microscopic [OF run, of 0] run show ?thesis by simp
qed

end
